theory Spec2Isabelle
  imports Main "HOL-Library.Word" "HOL-Library.Signed_Division" "HOL-Library.Sublist"
begin

section \<open>Data model of repmgrd.c\<close>

text \<open>The enums of repmgrd.c, in the order of their declaration.\<close>

datatype NodeStatus = NODE_STATUS_UNKNOWN | NODE_STATUS_UP | NODE_STATUS_DOWN

datatype FailoverState =
    FAILOVER_STATE_UNKNOWN
  | FAILOVER_STATE_NONE
  | FAILOVER_STATE_PROMOTED
  | FAILOVER_STATE_PROMOTION_FAILED
  | FAILOVER_STATE_PRIMARY_REAPPEARED
  | FAILOVER_STATE_LOCAL_NODE_FAILURE
  | FAILOVER_STATE_WAITING_NEW_PRIMARY
  | FAILOVER_STATE_FOLLOWED_NEW_PRIMARY
  | FAILOVER_STATE_FOLLOWING_ORIGINAL_PRIMARY
  | FAILOVER_STATE_NO_NEW_PRIMARY
  | FAILOVER_STATE_FOLLOW_FAIL
  | FAILOVER_STATE_NODE_NOTIFICATION_ERROR

datatype ElectionResult = ELECTION_NOT_CANDIDATE | ELECTION_WON | ELECTION_LOST

text \<open>
  Types declared in headers that repmgrd.c includes: only the members and enumerators
  that repmgrd.c itself uses are listed.
\<close>

datatype NodeVotingStatus =
  VS_NO_VOTE | VS_VOTE_REQUEST_RECEIVED | VS_VOTE_INITIATED | VS_UNKNOWN

datatype t_server_type = UNKNOWN | PRIMARY | STANDBY | WITNESS | BDR

datatype RecoveryType = RECTYPE_UNKNOWN | RECTYPE_PRIMARY | RECTYPE_STANDBY

datatype ConnStatusType = CONNECTION_OK | CONNECTION_BAD

text \<open>
  A \<open>PGconn *\<close> is modelled by the status that \<open>PQstatus\<close> reports for it; the null
  pointer is \<open>None\<close>, for which libpq's \<open>PQstatus\<close> answers \<open>CONNECTION_BAD\<close>.
\<close>

type_synonym PGconn = "ConnStatusType option"

fun PQstatus :: "PGconn \<Rightarrow> ConnStatusType" where
  "PQstatus None = CONNECTION_BAD"
| "PQstatus (Some st) = st"

type_synonym XLogRecPtr = "64 word"

definition InvalidXLogRecPtr :: XLogRecPtr where
  "InvalidXLogRecPtr = 0"

record t_node_info =
  node_id :: int
  upstream_node_id :: int
  type :: t_server_type
  node_name :: string
  conninfo :: string
  priority :: int
  active :: bool
  is_visible :: bool
  last_wal_receive_lsn :: XLogRecPtr
  conn :: PGconn

section \<open>External calls and the daemon's global state\<close>

text \<open>
  Every call that leaves the process (libpq, the database helpers of dbutils, \<open>sleep\<close>,
  \<open>system\<close>) is recorded, in program order, in a trace kept in the state. The answers
  of those calls are parameters of the model (records named \<open>..._env\<close>). Logging calls
  are not recorded.
\<close>

datatype action =
    Sleep nat
  | PgUsleep int
  | IsServerAvailable string
  | EstablishDbConnection string bool
  | GetNodeRecord int
  | GetVotingStatus
  | SetVotingStatusInitiated
  | ResetVotingStatus
  | GetActiveSiblingNodeRecords int int
  | AnnounceCandidature int int
  | RequestVote int int
  | GetLastWalReceiveLocation
  | NotifyFollowPrimary int int
  | GetNewPrimary
  | GetPrimaryConnection
  | GetRecoveryType
  | System string
  | CreateEventRecord int string

text \<open>The members of \<open>config_file_options\<close> that the monitoring code reads.\<close>

record t_configuration_options =
  node_id_opt :: int
  conninfo_opt :: string
  promote_command :: string
  service_promote_command :: string
  follow_command :: string
  promote_delay :: int
  log_status_interval :: int

text \<open>The file-scope variables of repmgrd.c.\<close>

record daemon_state =
  config_file_options :: t_configuration_options
  local_node_info :: t_node_info
  local_conn :: PGconn
  upstream_node_info :: t_node_info
  upstream_conn :: PGconn
  primary_conn :: PGconn
  failover_state :: FailoverState
  standby_nodes :: "t_node_info list"
  startup_event_logged :: bool
  trace :: "action list"

definition emit :: "action list \<Rightarrow> daemon_state \<Rightarrow> daemon_state" where
  "emit acts s = s\<lparr>trace := trace s @ acts\<rparr>"

text \<open>
  Modelled from the spec: \<open>establish_db_connection\<close> is defined outside repmgrd.c. It is
  the spec's \<open>open(conninfo, must_succeed)\<close>. With the second argument false it hands
  back a handle in every case, and the caller tests its status. With the second argument
  true a connection that cannot be opened is fatal: \<open>main\<close> calls it so, to "abort if
  local node not available", and uses the handle unchecked. So such a call does not
  return when the connection fails: the process ends there.

  A function in which the process may end has an \<open>outcome\<close>: it is done, with its
  result, or the process has exited, in the given state.
\<close>

datatype 'a outcome = Done 'a | Exit daemon_state

section \<open>try_reconnect\<close>

text \<open>
  The answers of the node during one call of \<open>try_reconnect\<close>, by attempt number \<open>i\<close>:
  what \<open>is_server_available\<close> returns, and the status of the handle that
  \<open>establish_db_connection\<close> returns.
\<close>

record reconnect_env =
  re_available :: "nat \<Rightarrow> bool"
  re_connect :: "nat \<Rightarrow> ConnStatusType"

definition max_attempts :: nat where
  "max_attempts = 5"

text \<open>
  The \<open>for\<close> loop from attempt \<open>i\<close> on. The result is the returned handle, the value
  stored through \<open>node_status\<close>, and the calls made.
\<close>

function try_reconnect_loop ::
  "reconnect_env \<Rightarrow> string \<Rightarrow> nat \<Rightarrow> PGconn \<times> NodeStatus \<times> action list" where
  "try_reconnect_loop env ci i =
     (if i < max_attempts then
        (if re_available env i = True then
           (let conn = Some (re_connect env i) in
            if PQstatus conn = CONNECTION_OK then
              (conn, NODE_STATUS_UP, [IsServerAvailable ci, EstablishDbConnection ci False])
            else
              (case try_reconnect_loop env ci (i + 1) of
                 (c, st, acts) \<Rightarrow>
                   (c, st, [IsServerAvailable ci, EstablishDbConnection ci False, Sleep 1] @ acts)))
         else
           (case try_reconnect_loop env ci (i + 1) of
              (c, st, acts) \<Rightarrow> (c, st, [IsServerAvailable ci, Sleep 1] @ acts)))
      else (None, NODE_STATUS_DOWN, []))"
  by pat_completeness auto
termination
  by (relation "measure (\<lambda>(env, ci, i). max_attempts - i)") auto

definition try_reconnect ::
  "reconnect_env \<Rightarrow> string \<Rightarrow> PGconn \<times> NodeStatus \<times> action list" where
  "try_reconnect env ci = try_reconnect_loop env ci 0"

section \<open>poll_best_candidate\<close>

text \<open>
  One pass of the \<open>for\<close> loop of \<open>poll_best_candidate\<close>: the three-armed
  \<open>if / else if / else if\<close> chain, as the source nests it. The test on \<open>node_id\<close> is
  the \<open>else\<close> arm of the equality test on the LSN, so it runs when the cell's LSN is
  lower than the best candidate's.
\<close>

definition poll_step :: "t_node_info \<Rightarrow> t_node_info \<Rightarrow> t_node_info" where
  "poll_step best_candidate cell =
     (if last_wal_receive_lsn cell > last_wal_receive_lsn best_candidate then cell
      else if last_wal_receive_lsn cell = last_wal_receive_lsn best_candidate then
        (if priority cell > priority best_candidate then cell else best_candidate)
      else if node_id cell < node_id best_candidate then cell
      else best_candidate)"

fun poll_loop :: "t_node_info \<Rightarrow> t_node_info list \<Rightarrow> t_node_info" where
  "poll_loop best_candidate [] = best_candidate"
| "poll_loop best_candidate (cell # rest) = poll_loop (poll_step best_candidate cell) rest"

definition poll_best_candidate :: "daemon_state \<Rightarrow> t_node_info list \<Rightarrow> t_node_info" where
  "poll_best_candidate s nodes = poll_loop (local_node_info s) nodes"

section \<open>do_election\<close>

text \<open>
  The answers of the outside world during one election round: the value of \<open>rand()\<close>,
  the local voting status, the electoral term that \<open>set_voting_status_initiated\<close>
  returns, the sibling records that \<open>get_active_sibling_node_records\<close> loads, the local
  node's WAL receive location, and, per sibling, the status of the connection opened to
  its conninfo, its answer to \<open>announce_candidature\<close> and its answer to
  \<open>request_vote\<close> (by node id). The counters \<open>votes_for_me\<close> and \<open>visible_nodes\<close> and
  the value that \<open>request_vote\<close> returns are C \<open>int\<close>s: 32-bit words, whose addition
  wraps around as it does in the compiled code.
\<close>

type_synonym c_int = "32 word"

text \<open>
  Modelled from the spec: \<open>request_vote\<close> is defined outside repmgrd.c. Its answer is the
  vote it returns together with the sibling's reported \<open>last_wal_receive_lsn\<close>, which it
  leaves in the sibling's record and which \<open>do_election\<close> then compares with the local
  one.
\<close>

record election_env =
  ee_rand :: int
  ee_voting_status :: NodeVotingStatus
  ee_electoral_term :: int
  ee_siblings :: "t_node_info list"
  ee_connect :: "string \<Rightarrow> ConnStatusType"
  ee_announce :: "int \<Rightarrow> bool"
  ee_request_vote :: "int \<Rightarrow> c_int \<times> XLogRecPtr"
  ee_local_lsn :: XLogRecPtr

text \<open>
  \<open>(long) ((rand() % 50) + 10) * 10000\<close>, in microseconds; \<open>smod\<close> is the remainder of
  the division that truncates towards zero, as C's \<open>%\<close>.
\<close>

definition election_rand_wait :: "int \<Rightarrow> int" where
  "election_rand_wait r = ((r smod 50) + 10) * 10000"

text \<open>
  The first loop over \<open>standby_nodes\<close>: connect and announce. The result is
  \<open>other_node_is_candidate\<close>, \<open>visible_nodes\<close>, the cells as the loop leaves them and
  the calls made. After the \<open>break\<close> the remaining cells are untouched.
\<close>

fun announce_loop ::
  "election_env \<Rightarrow> int \<Rightarrow> t_node_info list \<Rightarrow> c_int
     \<Rightarrow> bool \<times> c_int \<times> t_node_info list \<times> action list" where
  "announce_loop env electoral_term [] visible_nodes = (False, visible_nodes, [], [])"
| "announce_loop env electoral_term (cell # rest) visible_nodes =
     (let cell = cell\<lparr>is_visible := False\<rparr>;
          cell = cell\<lparr>conn := Some (ee_connect env (conninfo cell))\<rparr>;
          acts = [EstablishDbConnection (conninfo cell) False]
      in if PQstatus (conn cell) \<noteq> CONNECTION_OK then
           (case announce_loop env electoral_term rest visible_nodes of
              (cand, vis, rest', acts') \<Rightarrow> (cand, vis, cell # rest', acts @ acts'))
         else
           (let acts = acts @ [AnnounceCandidature (node_id cell) electoral_term] in
            if ee_announce env (node_id cell) = False then
              (True, visible_nodes, cell # rest, acts)
            else
              (let cell = cell\<lparr>is_visible := True\<rparr> in
               case announce_loop env electoral_term rest (visible_nodes + 1) of
                 (cand, vis, rest', acts') \<Rightarrow> (cand, vis, cell # rest', acts @ acts'))))"

text \<open>
  The second loop: request a vote from each visible cell. The result is \<open>votes_for_me\<close>,
  \<open>other_node_is_ahead\<close>, the cells as the loop leaves them and the calls made.
\<close>

fun request_vote_loop ::
  "election_env \<Rightarrow> int \<Rightarrow> t_node_info \<Rightarrow> t_node_info list \<Rightarrow> c_int \<Rightarrow> bool
     \<Rightarrow> c_int \<times> bool \<times> t_node_info list \<times> action list" where
  "request_vote_loop env electoral_term local [] votes_for_me other_node_is_ahead =
     (votes_for_me, other_node_is_ahead, [], [])"
| "request_vote_loop env electoral_term local (cell # rest) votes_for_me other_node_is_ahead =
     (if is_visible cell = False then
        (case request_vote_loop env electoral_term local rest votes_for_me other_node_is_ahead of
           (votes, ahead, rest', acts) \<Rightarrow> (votes, ahead, cell # rest', acts))
      else
        (let reply = ee_request_vote env (node_id cell);
             cell = cell\<lparr>last_wal_receive_lsn := snd reply\<rparr>;
             votes_for_me = votes_for_me + fst reply;
             other_node_is_ahead =
               (if last_wal_receive_lsn cell > last_wal_receive_lsn local then True
                else other_node_is_ahead);
             cell = cell\<lparr>conn := None\<rparr>
         in case request_vote_loop env electoral_term local rest votes_for_me other_node_is_ahead of
              (votes, ahead, rest', acts) \<Rightarrow>
                (votes, ahead, cell # rest', RequestVote (node_id cell) electoral_term # acts)))"

text \<open>
  The part of \<open>do_election\<close> after the first loop found no other candidate: read the
  local LSN, request the votes, count.
\<close>

definition do_election_vote ::
  "election_env \<Rightarrow> int \<Rightarrow> c_int \<Rightarrow> daemon_state \<Rightarrow> ElectionResult \<times> daemon_state" where
  "do_election_vote env electoral_term visible_nodes s0 =
     (let s = emit [GetLastWalReceiveLocation] s0;
          s = s\<lparr>local_node_info := (local_node_info s)\<lparr>last_wal_receive_lsn := ee_local_lsn env\<rparr>\<rparr>
      in case request_vote_loop env electoral_term (local_node_info s) (standby_nodes s) 0 False of
           (votes, other_node_is_ahead, cells, acts) \<Rightarrow>
             (let s = emit acts (s\<lparr>standby_nodes := cells\<rparr>);
                  votes_for_me = (if other_node_is_ahead = False then votes + 1 else votes)
              in if votes_for_me = visible_nodes then (ELECTION_WON, s)
                 else (ELECTION_LOST, s)))"

definition do_election :: "election_env \<Rightarrow> daemon_state \<Rightarrow> ElectionResult \<times> daemon_state" where
  "do_election env s0 =
     (let rand_wait = election_rand_wait (ee_rand env);
          s = emit [PgUsleep rand_wait] s0;
          s = s\<lparr>local_node_info := (local_node_info s)\<lparr>last_wal_receive_lsn := InvalidXLogRecPtr\<rparr>\<rparr>;
          s = emit [GetVotingStatus] s;
          voting_status = ee_voting_status env
      in if voting_status = VS_VOTE_REQUEST_RECEIVED then (ELECTION_NOT_CANDIDATE, s)
         else
           (let s = emit [SetVotingStatusInitiated] s;
                electoral_term = ee_electoral_term env;
                s = s\<lparr>standby_nodes := []\<rparr>;
                s = emit [GetActiveSiblingNodeRecords (node_id (local_node_info s))
                            (node_id (upstream_node_info s))] s;
                s = s\<lparr>standby_nodes := ee_siblings env\<rparr>
            in if length (standby_nodes s) = 0 then (ELECTION_WON, s)
               else
                 (case announce_loop env electoral_term (standby_nodes s) 1 of
                    (other_node_is_candidate, visible_nodes, cells, acts) \<Rightarrow>
                      (let s = emit acts (s\<lparr>standby_nodes := cells\<rparr>) in
                       if other_node_is_candidate = True then
                         (ELECTION_NOT_CANDIDATE, s\<lparr>standby_nodes := []\<rparr>)
                       else do_election_vote env electoral_term visible_nodes s))))"

section \<open>reset_node_voting_status\<close>

definition reset_node_voting_status :: "daemon_state \<Rightarrow> daemon_state" where
  "reset_node_voting_status s0 =
     (let s = s0\<lparr>failover_state := FAILOVER_STATE_NONE\<rparr>
      in if PQstatus (local_conn s) \<noteq> CONNECTION_OK then s
         else emit [ResetVotingStatus] s)"

section \<open>promote_self\<close>

text \<open>
  The answers during one call of \<open>promote_self\<close>: the record of the failed upstream
  that \<open>get_node_record\<close> loads, the exit status of the promote command, the status of
  the local connection reopened with \<open>establish_db_connection\<close>, the handle and the
  node id that \<open>get_primary_connection\<close> yields, and the local node's own record as
  reloaded after a promotion. The local connection is reopened with the second argument
  of \<open>establish_db_connection\<close> true: when it cannot be opened the process exits inside
  that call, and the test of the handle's status that follows it in \<open>promote_self\<close> is
  reached with an open connection only.
\<close>

record promote_env =
  pe_failed_primary :: t_node_info
  pe_system :: int
  pe_local_reconnect :: ConnStatusType
  pe_primary_conn :: PGconn
  pe_primary_node_id :: int
  pe_local_record :: t_node_info

text \<open>From \<open>if (r != 0)\<close> to the end of \<open>promote_self\<close>.\<close>

definition promote_self_result ::
  "promote_env \<Rightarrow> int \<Rightarrow> t_node_info \<Rightarrow> daemon_state \<Rightarrow> FailoverState \<times> daemon_state" where
  "promote_self_result env r failed_primary s0 =
     (if r \<noteq> 0 then
        (let s = emit [GetPrimaryConnection] s0;
             s = s\<lparr>primary_conn := pe_primary_conn env\<rparr>;
             primary_node_id = pe_primary_node_id env
         in if PQstatus (primary_conn s) = CONNECTION_OK
                 \<and> primary_node_id = node_id failed_primary then
              (FAILOVER_STATE_PRIMARY_REAPPEARED,
               emit [CreateEventRecord (node_id (local_node_info s)) ''repmgrd_failover_abort''] s)
            else (FAILOVER_STATE_PROMOTION_FAILED, s))
      else
        (let s = emit [GetNodeRecord (node_id (local_node_info s0))] s0;
             s = s\<lparr>local_node_info := pe_local_record env\<rparr>;
             s = emit [CreateEventRecord (node_id (local_node_info s)) ''repmgrd_failover_promote''] s
         in (FAILOVER_STATE_PROMOTED, s)))"

definition promote_self ::
  "promote_env \<Rightarrow> daemon_state \<Rightarrow> (FailoverState \<times> daemon_state) outcome" where
  "promote_self env s0 =
     (let s = (if promote_delay (config_file_options s0) > 0
               then emit [Sleep (nat (promote_delay (config_file_options s0)))] s0 else s0);
          s = emit [GetNodeRecord (upstream_node_id (local_node_info s))] s;
          failed_primary = pe_failed_primary env;
          promote_command =
            (if service_promote_command (config_file_options s) \<noteq> []
             then service_promote_command (config_file_options s)
             else promote_command (config_file_options s));
          s = emit [System promote_command] s;
          r = pe_system env
      in if PQstatus (local_conn s) \<noteq> CONNECTION_OK then
           (let s = emit [EstablishDbConnection (conninfo (local_node_info s)) True] s in
            if pe_local_reconnect env \<noteq> CONNECTION_OK then Exit s
            else
              (let s = s\<lparr>local_conn := Some (pe_local_reconnect env)\<rparr>
               in if PQstatus (local_conn s) \<noteq> CONNECTION_OK then
                    Done (FAILOVER_STATE_LOCAL_NODE_FAILURE, s)
                  else Done (promote_self_result env r failed_primary s)))
         else Done (promote_self_result env r failed_primary s))"

section \<open>notify_followers\<close>

text \<open>
  The loop of \<open>notify_followers\<close>; \<open>connect\<close> gives the status of a connection opened
  to a conninfo. The result is the cells as the loop leaves them and the calls made.
\<close>

fun notify_followers ::
  "(string \<Rightarrow> ConnStatusType) \<Rightarrow> t_node_info list \<Rightarrow> int \<Rightarrow> t_node_info list \<times> action list" where
  "notify_followers connect [] follow_node_id = ([], [])"
| "notify_followers connect (cell # rest) follow_node_id =
     (let reopen = (PQstatus (conn cell) \<noteq> CONNECTION_OK);
          acts = (if reopen then [EstablishDbConnection (conninfo cell) False] else []);
          cell = (if reopen then cell\<lparr>conn := Some (connect (conninfo cell))\<rparr> else cell)
      in if PQstatus (conn cell) \<noteq> CONNECTION_OK then
           (case notify_followers connect rest follow_node_id of
              (rest', acts') \<Rightarrow> (cell # rest', acts @ acts'))
         else
           (case notify_followers connect rest follow_node_id of
              (rest', acts') \<Rightarrow>
                (cell # rest', acts @ [NotifyFollowPrimary (node_id cell) follow_node_id] @ acts')))"

section \<open>wait_primary_notification\<close>

definition wait_primary_timeout :: nat where
  "wait_primary_timeout = 60"

text \<open>
  The polling loop from iteration \<open>i\<close> on; \<open>answer i\<close> is what the \<open>i\<close>-th call of
  \<open>get_new_primary\<close> returns and the id it stores. The result is \<open>Some\<close> of the new
  primary's id when the function returns true, \<open>None\<close> when it returns false.
\<close>

function wait_primary_loop :: "(nat \<Rightarrow> bool \<times> int) \<Rightarrow> nat \<Rightarrow> int option \<times> action list" where
  "wait_primary_loop answer i =
     (if i < wait_primary_timeout then
        (if fst (answer i) = True then (Some (snd (answer i)), [GetNewPrimary])
         else (case wait_primary_loop answer (i + 1) of
                 (res, acts) \<Rightarrow> (res, [GetNewPrimary, Sleep 1] @ acts)))
      else (None, []))"
  by pat_completeness auto
termination
  by (relation "measure (\<lambda>(answer, i). wait_primary_timeout - i)") auto

definition wait_primary_notification :: "(nat \<Rightarrow> bool \<times> int) \<Rightarrow> int option \<times> action list" where
  "wait_primary_notification answer = wait_primary_loop answer 0"

section \<open>follow_new_primary\<close>

record follow_env =
  fe_new_primary :: t_node_info
  fe_failed_primary :: t_node_info
  fe_primary_conn :: ConnStatusType
  fe_primary_recovery_type :: RecoveryType
  fe_system :: int
  fe_old_primary_conn :: ConnStatusType
  fe_upstream_recovery_type :: RecoveryType
  fe_upstream_record :: t_node_info
  fe_local_record :: t_node_info
  fe_local_conn :: ConnStatusType

text \<open>
  \<open>PQfinish\<close> on a handle that is not reassigned leaves the variable as it is: the
  model keeps the stored status.
\<close>

definition follow_new_primary ::
  "follow_env \<Rightarrow> int \<Rightarrow> daemon_state \<Rightarrow> FailoverState \<times> daemon_state" where
  "follow_new_primary env new_primary_id s0 =
     (let s = emit [GetNodeRecord new_primary_id] s0;
          new_primary = fe_new_primary env;
          s = emit [GetNodeRecord (upstream_node_id (local_node_info s))] s;
          failed_primary = fe_failed_primary env;
          s = s\<lparr>local_conn := None\<rparr>;
          s = emit [EstablishDbConnection (conninfo new_primary) False] s;
          s = s\<lparr>primary_conn := Some (fe_primary_conn env)\<rparr>;
          connected = (PQstatus (primary_conn s) = CONNECTION_OK);
          s = (if connected then emit [GetRecoveryType] s else s);
          new_primary_ok = (connected \<and> fe_primary_recovery_type env = RECTYPE_PRIMARY)
      in if new_primary_ok = False then (FAILOVER_STATE_FOLLOW_FAIL, s)
         else
           (let s = emit [System (follow_command (config_file_options s))] s;
                r = fe_system env
            in if r \<noteq> 0 then
                 (let s = emit [EstablishDbConnection (conninfo failed_primary) False] s;
                      old_primary_conn = Some (fe_old_primary_conn env)
                  in if PQstatus old_primary_conn = CONNECTION_OK then
                       (let s = emit [GetRecoveryType] s in
                        if fe_upstream_recovery_type env = RECTYPE_PRIMARY then
                          (FAILOVER_STATE_PRIMARY_REAPPEARED, s)
                        else (FAILOVER_STATE_FOLLOW_FAIL, s))
                     else (FAILOVER_STATE_FOLLOW_FAIL, s))
               else
                 (let s = emit [GetNodeRecord new_primary_id] s;
                      s = s\<lparr>upstream_node_info := fe_upstream_record env\<rparr>;
                      s = emit [GetNodeRecord (node_id (local_node_info s))] s;
                      s = s\<lparr>local_node_info := fe_local_record env\<rparr>;
                      s = emit [EstablishDbConnection (conninfo (local_node_info s)) False] s;
                      s = s\<lparr>local_conn := Some (fe_local_conn env)\<rparr>;
                      s = emit [CreateEventRecord (node_id (local_node_info s))
                                  ''repmgrd_failover_follow''] s
                  in (FAILOVER_STATE_FOLLOWED_NEW_PRIMARY, s))))"

section \<open>monitor_streaming_standby\<close>

text \<open>
  The answers during one pass of the monitoring loop of \<open>monitor_streaming_standby\<close>,
  one member for each place where the loop body calls out: the availability of the
  upstream, the reconnection attempts, the election, \<open>promote_self\<close>, the sibling records
  reloaded after a lost election, the connection to the best candidate, the polls of
  \<open>wait_primary_notification\<close>, the sibling records reloaded after a promotion,
  \<open>follow_new_primary\<close>, the connections of \<open>notify_followers\<close>, the availability of
  the local node and the status of the local connection when it is reopened.
\<close>

record tick_env =
  te_upstream_available :: bool
  te_reconnect :: reconnect_env
  te_election :: election_env
  te_promote :: promote_env
  te_siblings_lost :: "t_node_info list"
  te_candidate_conn :: ConnStatusType
  te_wait :: "nat \<Rightarrow> bool \<times> int"
  te_siblings_promoted :: "t_node_info list"
  te_follow :: follow_env
  te_notify :: "string \<Rightarrow> ConnStatusType"
  te_local_available :: bool
  te_local_reconnect :: ConnStatusType

text \<open>
  What the \<open>switch\<close> on \<open>failover_state\<close> does with the control flow: \<open>RETURN\<close> leaves
  \<open>monitor_streaming_standby\<close>, \<open>BREAK\<close> leaves the \<open>switch\<close> only, and the
  monitoring loop goes on.
\<close>

datatype control = RETURN | BREAK

text \<open>
  The body of \<open>if (upstream_node_status == NODE_STATUS_DOWN)\<close> up to the \<open>switch\<close>,
  in three parts. First the \<open>if / else if / else\<close> on the election result, which
  assigns \<open>failover_state\<close>.
\<close>

definition election_outcome ::
  "tick_env \<Rightarrow> ElectionResult \<Rightarrow> daemon_state \<Rightarrow> daemon_state outcome" where
  "election_outcome env election_result s0 =
     (if election_result = ELECTION_WON then
        (case promote_self (te_promote env) s0 of
           Done (fs, s) \<Rightarrow> Done (s\<lparr>failover_state := fs\<rparr>)
         | Exit s \<Rightarrow> Exit s)
      else if election_result = ELECTION_LOST then
        (let s = s0\<lparr>standby_nodes := []\<rparr>;
             s = emit [GetActiveSiblingNodeRecords (node_id (local_node_info s))
                         (node_id (upstream_node_info s))] s;
             s = s\<lparr>standby_nodes := te_siblings_lost env\<rparr>;
             best_candidate = poll_best_candidate s (standby_nodes s)
         in if node_id best_candidate = node_id (local_node_info s) then
              (case promote_self (te_promote env) s of
                 Done (fs, s) \<Rightarrow> Done (s\<lparr>failover_state := fs\<rparr>)
               | Exit s \<Rightarrow> Exit s)
            else
              (let s = emit [EstablishDbConnection (conninfo best_candidate) False] s;
                   candidate_conn = Some (te_candidate_conn env)
               in if PQstatus candidate_conn = CONNECTION_OK then
                    (let s = emit [NotifyFollowPrimary (node_id best_candidate)
                                     (node_id best_candidate)] s
                     in Done (s\<lparr>failover_state := FAILOVER_STATE_WAITING_NEW_PRIMARY\<rparr>))
                  else Done (s\<lparr>failover_state := FAILOVER_STATE_NODE_NOTIFICATION_ERROR\<rparr>)))
      else Done (s0\<lparr>failover_state := FAILOVER_STATE_WAITING_NEW_PRIMARY\<rparr>))"

text \<open>Then the body of \<open>if (failover_state == FAILOVER_STATE_WAITING_NEW_PRIMARY)\<close>.\<close>

definition await_new_primary :: "tick_env \<Rightarrow> daemon_state \<Rightarrow> daemon_state outcome" where
  "await_new_primary env s0 =
     (case wait_primary_notification (te_wait env) of
        (notified, acts) \<Rightarrow>
          (let s = emit acts s0 in
           case notified of
             Some new_primary_id \<Rightarrow>
               (if new_primary_id = node_id (upstream_node_info s) then
                  Done (s\<lparr>failover_state := FAILOVER_STATE_FOLLOWING_ORIGINAL_PRIMARY\<rparr>)
                else if new_primary_id = node_id (local_node_info s) then
                  (case promote_self (te_promote env) s of
                     Done (fs, s) \<Rightarrow>
                       (let s = s\<lparr>failover_state := fs\<rparr>;
                            s = s\<lparr>standby_nodes := []\<rparr>;
                            s = emit [GetActiveSiblingNodeRecords
                                        (node_id (local_node_info s))
                                        (node_id (upstream_node_info s))] s
                        in Done (s\<lparr>standby_nodes := te_siblings_promoted env\<rparr>))
                   | Exit s \<Rightarrow> Exit s)
                else
                  (case follow_new_primary (te_follow env) new_primary_id s of
                     (fs, s) \<Rightarrow> Done (s\<lparr>failover_state := fs\<rparr>)))
           | None \<Rightarrow> Done (s\<lparr>failover_state := FAILOVER_STATE_NO_NEW_PRIMARY\<rparr>)))"

text \<open>The whole: the election, its outcome, and the wait if the node is to follow.\<close>

definition standby_failover :: "tick_env \<Rightarrow> daemon_state \<Rightarrow> daemon_state outcome" where
  "standby_failover env s0 =
     (case do_election (te_election env) s0 of
        (election_result, s) \<Rightarrow>
          (let s = s\<lparr>failover_state := FAILOVER_STATE_UNKNOWN\<rparr> in
           case election_outcome env election_result s of
             Done s \<Rightarrow>
               (if failover_state s = FAILOVER_STATE_WAITING_NEW_PRIMARY then
                  await_new_primary env s
                else Done s)
           | Exit s \<Rightarrow> Exit s))"

text \<open>
  The \<open>switch (failover_state)\<close>. Its case labels are listed in the order of the
  source; there is no \<open>default\<close>, so for a value without a label (the last equation)
  the statement does nothing.
\<close>

definition failover_dispatch ::
  "(string \<Rightarrow> ConnStatusType) \<Rightarrow> daemon_state \<Rightarrow> control \<times> daemon_state" where
  "failover_dispatch connect s =
     (case failover_state s of
        FAILOVER_STATE_PROMOTED \<Rightarrow>
          (case notify_followers connect (standby_nodes s) (node_id (local_node_info s)) of
             (cells, acts) \<Rightarrow>
               (let s = emit acts (s\<lparr>standby_nodes := cells\<rparr>);
                    s = s\<lparr>standby_nodes := []\<rparr>;
                    s = s\<lparr>failover_state := FAILOVER_STATE_NONE\<rparr>
                in (RETURN, s)))
      | FAILOVER_STATE_PRIMARY_REAPPEARED \<Rightarrow>
          (case notify_followers connect (standby_nodes s) (node_id (upstream_node_info s)) of
             (cells, acts) \<Rightarrow>
               (let s = emit acts (s\<lparr>standby_nodes := cells\<rparr>);
                    s = s\<lparr>standby_nodes := []\<rparr>;
                    s = s\<lparr>failover_state := FAILOVER_STATE_NONE\<rparr>
                in (RETURN, s)))
      | FAILOVER_STATE_PROMOTION_FAILED \<Rightarrow> (BREAK, s)
      | FAILOVER_STATE_FOLLOWED_NEW_PRIMARY \<Rightarrow>
          (RETURN, s\<lparr>failover_state := FAILOVER_STATE_NONE\<rparr>)
      | FAILOVER_STATE_FOLLOWING_ORIGINAL_PRIMARY \<Rightarrow>
          (RETURN, s\<lparr>failover_state := FAILOVER_STATE_NONE\<rparr>)
      | FAILOVER_STATE_NO_NEW_PRIMARY \<Rightarrow> (RETURN, s)
      | FAILOVER_STATE_WAITING_NEW_PRIMARY \<Rightarrow> (RETURN, s)
      | FAILOVER_STATE_LOCAL_NODE_FAILURE \<Rightarrow> (BREAK, s)
      | FAILOVER_STATE_UNKNOWN \<Rightarrow> (BREAK, s)
      | FAILOVER_STATE_NONE \<Rightarrow> (BREAK, s)
      | _ \<Rightarrow> (BREAK, s))"

text \<open>
  From the label \<open>loop:\<close> to the end of the loop body: the check of the local node and
  the \<open>sleep(1)\<close>. The status line that is logged every \<open>log_status_interval\<close> seconds
  has no effect on the state.
\<close>

definition standby_loop_tail :: "tick_env \<Rightarrow> daemon_state \<Rightarrow> daemon_state" where
  "standby_loop_tail env s0 =
     (let s = emit [IsServerAvailable (conninfo (local_node_info s0))] s0;
          s = (if te_local_available env = False then
                 (if local_conn s \<noteq> None then s\<lparr>local_conn := None\<rparr> else s)
               else s);
          s = (if PQstatus (local_conn s) \<noteq> CONNECTION_OK then
                 (emit [EstablishDbConnection (conninfo_opt (config_file_options s)) False] s)
                   \<lparr>local_conn := Some (te_local_reconnect env)\<rparr>
               else s)
      in emit [Sleep 1] s)"

text \<open>
  One pass of the \<open>while (true)\<close> loop, from the state of the local variable
  \<open>upstream_node_status\<close> and the globals to their state at the end of the pass, or
  to the \<open>return\<close>, or to the exit of the process.
\<close>

definition standby_tick ::
  "tick_env \<Rightarrow> NodeStatus \<Rightarrow> daemon_state
     \<Rightarrow> (control \<times> NodeStatus \<times> daemon_state) outcome" where
  "standby_tick env upstream_node_status s0 =
     (let s = emit [IsServerAvailable (conninfo (upstream_node_info s0))] s0 in
      if te_upstream_available env = False then
        (if upstream_node_status = NODE_STATUS_UP then
           (case try_reconnect (te_reconnect env) (conninfo (upstream_node_info s)) of
              (c, upstream_node_status, acts) \<Rightarrow>
                (let s = emit acts (s\<lparr>upstream_conn := c\<rparr>) in
                 if upstream_node_status = NODE_STATUS_UP then
                   Done (BREAK, upstream_node_status, standby_loop_tail env s)
                 else if upstream_node_status = NODE_STATUS_DOWN then
                   (case standby_failover env s of
                      Done s \<Rightarrow>
                        (case failover_dispatch (te_notify env) s of
                           (RETURN, s) \<Rightarrow> Done (RETURN, upstream_node_status, s)
                         | (BREAK, s) \<Rightarrow>
                             Done (BREAK, upstream_node_status, standby_loop_tail env s))
                    | Exit s \<Rightarrow> Exit s)
                 else Done (BREAK, upstream_node_status, standby_loop_tail env s)))
         else Done (BREAK, upstream_node_status, standby_loop_tail env s))
      else Done (BREAK, upstream_node_status, standby_loop_tail env s))"

text \<open>
  The outcome of a loop that has no exit condition, observed for as many passes as
  there are answers: it has returned, or it is still looping, with these locals and
  globals, or the process has exited.
\<close>

datatype run = Returned daemon_state | Looping NodeStatus daemon_state | Exited daemon_state

fun standby_loop :: "tick_env list \<Rightarrow> NodeStatus \<Rightarrow> daemon_state \<Rightarrow> run" where
  "standby_loop [] upstream_node_status s = Looping upstream_node_status s"
| "standby_loop (env # envs) upstream_node_status s =
     (case standby_tick env upstream_node_status s of
        Done (RETURN, st, s') \<Rightarrow> Returned s'
      | Done (BREAK, st, s') \<Rightarrow> standby_loop envs st s'
      | Exit s' \<Rightarrow> Exited s')"

text \<open>The statements before the loop: the upstream record, its connection, the startup event.\<close>

record standby_start_env =
  se_upstream_record :: t_node_info
  se_upstream_conn :: ConnStatusType

definition standby_start :: "standby_start_env \<Rightarrow> daemon_state \<Rightarrow> daemon_state" where
  "standby_start env s0 =
     (let s = emit [GetNodeRecord (upstream_node_id (local_node_info s0))] s0;
          s = s\<lparr>upstream_node_info := se_upstream_record env\<rparr>;
          s = emit [EstablishDbConnection (conninfo (upstream_node_info s)) False] s;
          s = s\<lparr>upstream_conn := Some (se_upstream_conn env)\<rparr>;
          s = s\<lparr>primary_conn := upstream_conn s\<rparr>
      in if startup_event_logged s = False then
           (emit [CreateEventRecord (node_id_opt (config_file_options s)) ''repmgrd_start''] s)
             \<lparr>startup_event_logged := True\<rparr>
         else s)"

definition monitor_streaming_standby ::
  "standby_start_env \<Rightarrow> tick_env list \<Rightarrow> daemon_state \<Rightarrow> run" where
  "monitor_streaming_standby start envs s =
     standby_loop envs NODE_STATUS_UP (standby_start start s)"

section \<open>monitor_streaming_primary\<close>

record primary_tick_env =
  pt_local_available :: bool
  pt_reconnect :: reconnect_env

definition primary_tick ::
  "primary_tick_env \<Rightarrow> NodeStatus \<Rightarrow> daemon_state \<Rightarrow> NodeStatus \<times> daemon_state" where
  "primary_tick env node_status s0 =
     (let s = emit [IsServerAvailable (conninfo (local_node_info s0))] s0 in
      if pt_local_available env = False then
        (if node_status = NODE_STATUS_UP then
           (let s = emit [CreateEventRecord (node_id_opt (config_file_options s))
                            ''repmgrd_local_disconnect''] s
            in case try_reconnect (pt_reconnect env) (conninfo (local_node_info s)) of
                 (c, node_status, acts) \<Rightarrow>
                   (let s = emit acts (s\<lparr>local_conn := c\<rparr>) in
                    if node_status = NODE_STATUS_UP then
                      (node_status,
                       emit [CreateEventRecord (node_id_opt (config_file_options s))
                               ''repmgrd_local_reconnect'', Sleep 1] s)
                    else (node_status, emit [Sleep 1] s)))
         else (node_status, emit [Sleep 1] s))
      else (node_status, emit [Sleep 1] s))"

text \<open>The loop of \<open>monitor_streaming_primary\<close> has no \<open>return\<close> and no \<open>break\<close>.\<close>

fun primary_loop :: "primary_tick_env list \<Rightarrow> NodeStatus \<Rightarrow> daemon_state \<Rightarrow> run" where
  "primary_loop [] node_status s = Looping node_status s"
| "primary_loop (env # envs) node_status s =
     (case primary_tick env node_status s of (st, s') \<Rightarrow> primary_loop envs st s')"

definition primary_start :: "daemon_state \<Rightarrow> daemon_state" where
  "primary_start s =
     (if startup_event_logged s = False then
        (emit [CreateEventRecord (node_id_opt (config_file_options s)) ''repmgrd_start''] s)
          \<lparr>startup_event_logged := True\<rparr>
      else s)"

definition monitor_streaming_primary :: "primary_tick_env list \<Rightarrow> daemon_state \<Rightarrow> run" where
  "monitor_streaming_primary envs s = primary_loop envs NODE_STATUS_UP (primary_start s)"

section \<open>start_monitoring\<close>

text \<open>The answers during one pass of the outer loop: those of the monitor that it enters.\<close>

record monitoring_env =
  me_primary_ticks :: "primary_tick_env list"
  me_standby_start :: standby_start_env
  me_standby_ticks :: "tick_env list"

text \<open>
  The outcome of \<open>start_monitoring\<close>, observed for as many passes as there are answers:
  it has returned, it is inside a monitor that has not returned, it is at the top of
  the outer loop, or the process has exited.
\<close>

datatype monitoring =
    Stopped daemon_state
  | InMonitor NodeStatus daemon_state
  | AtLoopTop daemon_state
  | Terminated daemon_state

fun start_monitoring :: "monitoring_env list \<Rightarrow> daemon_state \<Rightarrow> monitoring" where
  "start_monitoring [] s = AtLoopTop s"
| "start_monitoring (env # envs) s0 =
     (let s = reset_node_voting_status s0 in
      case type (local_node_info s) of
        PRIMARY \<Rightarrow>
          (case monitor_streaming_primary (me_primary_ticks env) s of
             Returned s' \<Rightarrow> start_monitoring envs s'
           | Looping st s' \<Rightarrow> InMonitor st s'
           | Exited s' \<Rightarrow> Terminated s')
      | STANDBY \<Rightarrow>
          (case monitor_streaming_standby (me_standby_start env) (me_standby_ticks env) s of
             Returned s' \<Rightarrow> start_monitoring envs s'
           | Looping st s' \<Rightarrow> InMonitor st s'
           | Exited s' \<Rightarrow> Terminated s')
      | BDR \<Rightarrow> Stopped s
      | WITNESS \<Rightarrow> Stopped s
      | UNKNOWN \<Rightarrow> start_monitoring envs s)"

section \<open>Observations on traces and runs\<close>

text \<open>The calls made between a state and a later one.\<close>

definition emitted :: "daemon_state \<Rightarrow> daemon_state \<Rightarrow> action list" where
  "emitted s s' = drop (length (trace s)) (trace s')"

fun is_probe :: "action \<Rightarrow> bool" where
  "is_probe (IsServerAvailable ci) = True"
| "is_probe a = False"

text \<open>
  Every \<open>is_server_available\<close> call but the first comes after a \<open>sleep\<close> of at least one
  second that follows the previous one; the flag tells whether such a sleep has been
  seen since the last probe.
\<close>

fun spaced_probes :: "bool \<Rightarrow> action list \<Rightarrow> bool" where
  "spaced_probes slept [] = True"
| "spaced_probes slept (IsServerAvailable ci # acts) = (slept \<and> spaced_probes False acts)"
| "spaced_probes slept (Sleep n # acts) = spaced_probes (slept \<or> 1 \<le> n) acts"
| "spaced_probes slept (a # acts) = spaced_probes slept acts"

text \<open>Calls that contact a sibling during an election.\<close>

fun is_peer_call :: "action \<Rightarrow> bool" where
  "is_peer_call (EstablishDbConnection ci e) = True"
| "is_peer_call (AnnounceCandidature i t) = True"
| "is_peer_call (RequestVote i t) = True"
| "is_peer_call a = False"



text \<open>
  A sibling is visible in an election round when the connection to it opens and it
  accepts the announcement of the candidature.
\<close>

definition announced :: "election_env \<Rightarrow> t_node_info \<Rightarrow> bool" where
  "announced env cell =
     (ee_connect env (conninfo cell) = CONNECTION_OK \<and> ee_announce env (node_id cell))"

text \<open>
  The cell as the first loop of \<open>do_election\<close> leaves it when the loop runs to its end.
\<close>

definition mark :: "election_env \<Rightarrow> t_node_info \<Rightarrow> t_node_info" where
  "mark env cell =
     cell\<lparr>is_visible := announced env cell, conn := Some (ee_connect env (conninfo cell))\<rparr>"

text \<open>The state in which a function is done, or in which the process has exited.\<close>

fun final_state :: "('a \<Rightarrow> daemon_state) \<Rightarrow> 'a outcome \<Rightarrow> daemon_state" where
  "final_state f (Done x) = f x"
| "final_state f (Exit s) = s"



fun has_returned :: "run \<Rightarrow> bool" where
  "has_returned (Returned s) = True"
| "has_returned (Looping st s) = False"
| "has_returned (Exited s) = False"

fun run_state :: "run \<Rightarrow> daemon_state" where
  "run_state (Returned s) = s"
| "run_state (Looping st s) = s"
| "run_state (Exited s) = s"

fun monitoring_state :: "monitoring \<Rightarrow> daemon_state" where
  "monitoring_state (Stopped s) = s"
| "monitoring_state (InMonitor st s) = s"
| "monitoring_state (AtLoopTop s) = s"
| "monitoring_state (Terminated s) = s"


definition at_election :: "tick_env \<Rightarrow> daemon_state \<Rightarrow> daemon_state" where
  "at_election env s0 =
     (let s = emit [IsServerAvailable (conninfo (upstream_node_info s0))] s0 in
      case try_reconnect (te_reconnect env) (conninfo (upstream_node_info s)) of
        (c, st, acts) \<Rightarrow> emit acts (s\<lparr>upstream_conn := c\<rparr>))"

definition at_dispatch :: "tick_env \<Rightarrow> daemon_state \<Rightarrow> daemon_state" where
  "at_dispatch env s = final_state id (standby_failover env (at_election env s))"

text \<open>
  The state at the top of pass \<open>k\<close> of the outer loop of \<open>start_monitoring\<close>, counted
  from 0, when the loop gets there: each earlier pass has come back to the top of the
  loop.
\<close>

fun pass_top :: "nat \<Rightarrow> monitoring_env list \<Rightarrow> daemon_state \<Rightarrow> daemon_state option" where
  "pass_top 0 envs s = Some s"
| "pass_top (Suc k) [] s = None"
| "pass_top (Suc k) (env # envs) s =
     (case start_monitoring [env] s of
        AtLoopTop s' \<Rightarrow> pass_top k envs s'
      | _ \<Rightarrow> None)"

section \<open>A three-node cluster\<close>

text \<open>
  Node 1 is the primary, nodes 2 and 3 are its standbys; the daemon runs on node 2.
\<close>

definition cluster_node :: "int \<Rightarrow> int \<Rightarrow> XLogRecPtr \<Rightarrow> string \<Rightarrow> t_node_info" where
  "cluster_node i prio lsn ci =
     \<lparr>node_id = i, upstream_node_id = 1, type = STANDBY, node_name = ''node'',
      conninfo = ci, priority = prio, active = True, is_visible = False,
      last_wal_receive_lsn = lsn, conn = None\<rparr>"

definition node1 :: t_node_info where
  "node1 = (cluster_node 1 100 0 ''host=node1'')\<lparr>upstream_node_id := -1, type := PRIMARY\<rparr>"

definition node2 :: t_node_info where
  "node2 = cluster_node 2 100 0 ''host=node2''"

definition node3 :: t_node_info where
  "node3 = cluster_node 3 100 0 ''host=node3''"

text \<open>Two more standbys of node 1, for a round with three siblings.\<close>

definition node4 :: t_node_info where
  "node4 = cluster_node 4 100 0 ''host=node4''"

definition node5 :: t_node_info where
  "node5 = cluster_node 5 100 0 ''host=node5''"

definition standby2 :: daemon_state where
  "standby2 =
     \<lparr>config_file_options =
        \<lparr>node_id_opt = 2, conninfo_opt = ''host=node2'', promote_command = ''promote'',
         service_promote_command = [], follow_command = ''follow'', promote_delay = 0,
         log_status_interval = 0\<rparr>,
      local_node_info = node2, local_conn = Some CONNECTION_OK,
      upstream_node_info = node1, upstream_conn = Some CONNECTION_OK,
      primary_conn = Some CONNECTION_OK, failover_state = FAILOVER_STATE_NONE,
      standby_nodes = [], startup_event_logged = False, trace = []\<rparr>"

text \<open>
  Election rounds as node 2 sees them: alone (no sibling); with node 3 a rival that has
  declared itself candidate; with node 3 granting its vote.
\<close>

definition election_alone :: election_env where
  "election_alone =
     \<lparr>ee_rand = 1804289383, ee_voting_status = VS_NO_VOTE, ee_electoral_term = 1,
      ee_siblings = [], ee_connect = (\<lambda>ci. CONNECTION_OK), ee_announce = (\<lambda>i. True),
      ee_request_vote = (\<lambda>i. (1, 128)), ee_local_lsn = 256\<rparr>"

definition election_rival :: election_env where
  "election_rival = election_alone\<lparr>ee_siblings := [node3], ee_announce := (\<lambda>i. False)\<rparr>"

definition election_unanimous :: election_env where
  "election_unanimous = election_alone\<lparr>ee_siblings := [node3]\<rparr>"

text \<open>Node 3 refuses its vote and reports a WAL location ahead of node 2's.\<close>

definition election_behind :: election_env where
  "election_behind = election_unanimous\<lparr>ee_request_vote := (\<lambda>i. (0, 512))\<rparr>"

text \<open>
  Three siblings whose \<open>request_vote\<close> answers are 2147483647, 2147483647 and 5: the
  32-bit tally wraps around to 3.
\<close>

definition election_wrapping :: election_env where
  "election_wrapping =
     election_alone
       \<lparr>ee_siblings := [node3, node4, node5],
        ee_request_vote := (\<lambda>i. if i = 5 then (5, 128) else (2147483647, 128))\<rparr>"

text \<open>A node that stays down, and one that answers from the third attempt on.\<close>

definition node_down :: reconnect_env where
  "node_down = \<lparr>re_available = (\<lambda>i. False), re_connect = (\<lambda>i. CONNECTION_BAD)\<rparr>"

definition node_back :: reconnect_env where
  "node_back =
     \<lparr>re_available = (\<lambda>i. 2 \<le> i),
      re_connect = (\<lambda>i. if 3 \<le> i then CONNECTION_OK else CONNECTION_BAD)\<rparr>"

text \<open>
  The promote command fails and no primary is found; it fails and node 1 is found to be
  primary again.
\<close>

definition promote_fails :: promote_env where
  "promote_fails =
     \<lparr>pe_failed_primary = node1, pe_system = 256, pe_local_reconnect = CONNECTION_BAD,
      pe_primary_conn = None, pe_primary_node_id = 0, pe_local_record = node2\<rparr>"



text \<open>
  Passes of the standby monitor's loop on node 2 in which node 1 is unavailable and stays
  so: the election is won and the promote command fails; the node has received a vote
  request and no notification arrives; a notification names node 3, which cannot be
  reached; the election is lost to node 3, which cannot be reached.
\<close>

definition follow_unreachable :: follow_env where
  "follow_unreachable =
     \<lparr>fe_new_primary = node3, fe_failed_primary = node1, fe_primary_conn = CONNECTION_BAD,
      fe_primary_recovery_type = RECTYPE_UNKNOWN, fe_system = 0,
      fe_old_primary_conn = CONNECTION_BAD, fe_upstream_recovery_type = RECTYPE_UNKNOWN,
      fe_upstream_record = node3, fe_local_record = node2, fe_local_conn = CONNECTION_OK\<rparr>"

definition pass_promotion_failed :: tick_env where
  "pass_promotion_failed =
     \<lparr>te_upstream_available = False, te_reconnect = node_down, te_election = election_alone,
      te_promote = promote_fails, te_siblings_lost = [], te_candidate_conn = CONNECTION_BAD,
      te_wait = (\<lambda>i. (False, 0)), te_siblings_promoted = [], te_follow = follow_unreachable,
      te_notify = (\<lambda>ci. CONNECTION_OK), te_local_available = True,
      te_local_reconnect = CONNECTION_OK\<rparr>"

definition pass_no_new_primary :: tick_env where
  "pass_no_new_primary =
     pass_promotion_failed
       \<lparr>te_election := election_alone\<lparr>ee_voting_status := VS_VOTE_REQUEST_RECEIVED\<rparr>\<rparr>"

definition pass_follow_fail :: tick_env where
  "pass_follow_fail = pass_no_new_primary\<lparr>te_wait := (\<lambda>i. (2 \<le> i, 3))\<rparr>"


definition standby_start_ok :: standby_start_env where
  "standby_start_ok = \<lparr>se_upstream_record = node1, se_upstream_conn = CONNECTION_OK\<rparr>"

text \<open>
  Passes after which the monitor returns: a notification names node 1, the original
  primary; a notification names node 3, which node 2 then follows, its local connection
  failing to reopen afterwards. Then passes of the outer loop: the monitor runs one of
  these passes, or is observed for no pass at all.
\<close>

definition pass_original_primary :: tick_env where
  "pass_original_primary = pass_no_new_primary\<lparr>te_wait := (\<lambda>i. (True, 1))\<rparr>"

definition follow_node3 :: follow_env where
  "follow_node3 =
     \<lparr>fe_new_primary = node3, fe_failed_primary = node1, fe_primary_conn = CONNECTION_OK,
      fe_primary_recovery_type = RECTYPE_PRIMARY, fe_system = 0,
      fe_old_primary_conn = CONNECTION_BAD, fe_upstream_recovery_type = RECTYPE_UNKNOWN,
      fe_upstream_record = node3\<lparr>upstream_node_id := -1, type := PRIMARY\<rparr>,
      fe_local_record = node2\<lparr>upstream_node_id := 3\<rparr>, fe_local_conn = CONNECTION_BAD\<rparr>"

definition pass_followed :: tick_env where
  "pass_followed =
     pass_no_new_primary\<lparr>te_wait := (\<lambda>i. (True, 3)), te_follow := follow_node3\<rparr>"

definition outer_follow :: monitoring_env where
  "outer_follow =
     \<lparr>me_primary_ticks = [], me_standby_start = standby_start_ok,
      me_standby_ticks = [pass_original_primary]\<rparr>"

definition outer_followed :: monitoring_env where
  "outer_followed = outer_follow\<lparr>me_standby_ticks := [pass_followed]\<rparr>"

definition outer_idle :: monitoring_env where
  "outer_idle = outer_follow\<lparr>me_standby_ticks := []\<rparr>"

lemmas cluster_defs = standby2_def node1_def node2_def node3_def cluster_node_def

lemmas failover_defs =
  at_dispatch_def at_election_def standby_failover_def election_outcome_def
  await_new_primary_def do_election_def do_election_vote_def
  promote_self_def promote_self_result_def follow_new_primary_def poll_best_candidate_def
  poll_step_def wait_primary_notification_def wait_primary_loop.simps wait_primary_timeout_def
  election_rand_wait_def signed_modulo_int_def

lemmas run_defs =
  monitor_streaming_standby_def standby_start_def standby_tick_def standby_loop_tail_def
  failover_dispatch_def reset_node_voting_status_def failover_defs Let_def emit_def

declare try_reconnect_loop.simps [simp del]
declare wait_primary_loop.simps [simp del]


section \<open>Basic facts about the trace\<close>

lemma trace_emit [simp]: "trace (emit acts s) = trace s @ acts"
  by (simp add: emit_def)

lemma do_election_vote_trace:
  "\<exists>acts. trace (snd (do_election_vote env t v s)) = trace s @ acts"
  by (simp add: do_election_vote_def Let_def split: prod.splits)

lemma do_election_first_call:
  "\<exists>acts. trace (snd (do_election env s)) =
     trace s @ PgUsleep (election_rand_wait (ee_rand env)) # acts"
proof -
  obtain acts where "\<And>t v s'. trace (snd (do_election_vote env t v s')) = trace s' @ acts t v s'"
    using do_election_vote_trace by metis
  then show ?thesis
    by (simp add: do_election_def Let_def split: prod.splits)
qed

section \<open>The best candidate\<close>

text \<open>
  Claim C1. \<open>poll_best_candidate\<close> is meant to return the node that is maximal by LSN,
  then priority, then lowest node id. The code compares the node ids only when the
  cell's LSN is lower than the best candidate's. So node 3, with LSN 0x200, gives way to
  its sibling node 2 with LSN 0x100; and when both have the same LSN and priority, the
  node ids are not compared: node 3 and node 2, each polling the other, each keep
  themselves.
\<close>

theorem poll_best_candidate_node_id_before_lsn:
  "poll_best_candidate (standby2\<lparr>local_node_info := node3\<lparr>last_wal_receive_lsn := 512\<rparr>\<rparr>)
     [node2\<lparr>last_wal_receive_lsn := 256\<rparr>] = node2\<lparr>last_wal_receive_lsn := 256\<rparr>
   \<and> node_id (poll_best_candidate (standby2\<lparr>local_node_info := node3\<rparr>) [node2]) = 3
   \<and> node_id (poll_best_candidate (standby2\<lparr>local_node_info := node2\<rparr>) [node3]) = 2"
  by (simp add: poll_best_candidate_def poll_step_def cluster_defs)

section \<open>The election\<close>

lemma election_rand_wait_range:
  assumes "0 \<le> r"
  shows "100000 \<le> election_rand_wait r \<and> election_rand_wait r \<le> 590000"
proof -
  have "r smod 50 = r mod 50"
    using assms by (simp add: signed_modulo_int_def sgn_if)
  moreover have "0 \<le> r mod 50" and "r mod 50 < 50"
    by simp_all
  ultimately show ?thesis
    by (simp add: election_rand_wait_def)
qed

text \<open>
  Claim C7. \<open>rand()\<close> returns a value between 0 and \<open>RAND_MAX\<close>. For every such value
  the computed wait lies between 100000 and 600000 microseconds (100 ms and 600 ms), and
  the first call that \<open>do_election\<close> makes is the \<open>pg_usleep\<close> of that duration.
\<close>

theorem election_jitter_interval:
  assumes "0 \<le> ee_rand env"
  shows "100000 \<le> election_rand_wait (ee_rand env)
       \<and> election_rand_wait (ee_rand env) \<le> 600000
       \<and> (\<exists>acts. emitted s (snd (do_election env s)) =
             PgUsleep (election_rand_wait (ee_rand env)) # acts)"
proof -
  from do_election_first_call obtain acts where
    "trace (snd (do_election env s)) = trace s @ PgUsleep (election_rand_wait (ee_rand env)) # acts"
    by blast
  then have "emitted s (snd (do_election env s)) = PgUsleep (election_rand_wait (ee_rand env)) # acts"
    by (simp add: emitted_def)
  with election_rand_wait_range [OF assms] show ?thesis by simp
qed

theorem election_jitter_interval_witness:
  "0 \<le> ee_rand election_alone
   \<and> election_rand_wait (ee_rand election_alone) = 430000
   \<and> hd (emitted standby2 (snd (do_election election_alone standby2))) = PgUsleep 430000"
proof -
  have r: "0 \<le> ee_rand election_alone"
    by (simp add: election_alone_def)
  have w: "election_rand_wait (ee_rand election_alone) = 430000"
    by (simp add: election_alone_def election_rand_wait_def signed_modulo_int_def)
  from election_jitter_interval [OF r, of standby2] w r show ?thesis
    by auto
qed

text \<open>
  Claim C8. When the round gets as far as reloading the sibling list (the local voting
  status is not \<open>VS_VOTE_REQUEST_RECEIVED\<close>) and the list is empty, \<open>do_election\<close>
  returns \<open>ELECTION_WON\<close> after four calls, none of which opens a connection to a peer,
  announces the candidature or requests a vote.
\<close>

theorem do_election_no_siblings:
  assumes "ee_voting_status env \<noteq> VS_VOTE_REQUEST_RECEIVED"
      and "ee_siblings env = []"
  shows "fst (do_election env s) = ELECTION_WON
       \<and> emitted s (snd (do_election env s)) =
           [PgUsleep (election_rand_wait (ee_rand env)), GetVotingStatus,
            SetVotingStatusInitiated,
            GetActiveSiblingNodeRecords (node_id (local_node_info s))
              (node_id (upstream_node_info s))]
       \<and> \<not> list_ex is_peer_call (emitted s (snd (do_election env s)))"
  using assms by (simp add: do_election_def Let_def emitted_def emit_def)

theorem do_election_no_siblings_witness:
  "ee_voting_status election_alone \<noteq> VS_VOTE_REQUEST_RECEIVED
   \<and> ee_siblings election_alone = []
   \<and> fst (do_election election_alone standby2) = ELECTION_WON
   \<and> \<not> list_ex is_peer_call (emitted standby2 (snd (do_election election_alone standby2)))"
proof -
  have a: "ee_voting_status election_alone \<noteq> VS_VOTE_REQUEST_RECEIVED"
    and b: "ee_siblings election_alone = []"
    by (simp_all add: election_alone_def)
  from do_election_no_siblings [OF a b, of standby2] a b show ?thesis
    by simp
qed

lemma announce_loop_no_rival:
  assumes "\<forall>cell \<in> set cells.
             ee_connect env (conninfo cell) = CONNECTION_OK \<longrightarrow> ee_announce env (node_id cell)"
  shows "\<exists>acts. announce_loop env t cells v =
           (False, v + of_nat (length (filter (announced env) cells)), map (mark env) cells, acts)"
  using assms
proof (induction cells arbitrary: v)
  case Nil
  then show ?case by simp
next
  case (Cons cell rest)
  then have rest: "\<And>v. \<exists>acts. announce_loop env t rest v =
           (False, v + of_nat (length (filter (announced env) rest)), map (mark env) rest, acts)"
    by simp
  show ?case
  proof (cases "ee_connect env (conninfo cell)")
    case CONNECTION_BAD
    then have "\<not> announced env cell" by (simp add: announced_def)
    with CONNECTION_BAD rest [of v] show ?thesis
      by (auto simp: mark_def Let_def)
  next
    case CONNECTION_OK
    with Cons.prems have ann: "ee_announce env (node_id cell)" by simp
    with CONNECTION_OK have "announced env cell" by (simp add: announced_def)
    with CONNECTION_OK ann rest [of "v + 1"] show ?thesis
      by (auto simp: mark_def Let_def add.assoc)
  qed
qed

lemma request_vote_loop_tally:
  "\<exists>cells' acts. request_vote_loop env t local cells votes ahead =
     (votes + (\<Sum>cell\<leftarrow>filter is_visible cells. fst (ee_request_vote env (node_id cell))),
      ahead \<or> (\<exists>cell \<in> set (filter is_visible cells).
                 snd (ee_request_vote env (node_id cell)) > last_wal_receive_lsn local),
      cells', acts)"
proof (induction cells arbitrary: votes ahead)
  case Nil
  then show ?case by simp
next
  case (Cons cell rest)
  show ?case
  proof (cases "is_visible cell")
    case False
    with Cons [of votes ahead] show ?thesis by auto
  next
    case True
    let ?v = "votes + fst (ee_request_vote env (node_id cell))"
    let ?a = "if snd (ee_request_vote env (node_id cell)) > last_wal_receive_lsn local
              then True else ahead"
    from Cons [of ?v ?a] True show ?thesis
      by (auto simp: Let_def)
  qed
qed

lemma filter_visible_mark:
  "filter is_visible (map (mark env) cells) = map (mark env) (filter (announced env) cells)"
  by (induction cells) (auto simp: mark_def)

lemma node_id_mark [simp]: "node_id (mark env cell) = node_id cell"
  by (simp add: mark_def)

lemma do_election_vote_result:
  "fst (do_election_vote env t v s) =
     (if (\<Sum>cell\<leftarrow>filter is_visible (standby_nodes s). fst (ee_request_vote env (node_id cell)))
           + (if (\<exists>cell \<in> set (filter is_visible (standby_nodes s)).
                    snd (ee_request_vote env (node_id cell)) > ee_local_lsn env) then 0 else 1) = v
      then ELECTION_WON else ELECTION_LOST)"
proof -
  define local where
    "local = (local_node_info (emit [GetLastWalReceiveLocation] s))
               \<lparr>last_wal_receive_lsn := ee_local_lsn env\<rparr>"
  from request_vote_loop_tally [of env t local "standby_nodes s" 0 False]
  obtain cells' acts where
    "request_vote_loop env t local (standby_nodes s) 0 False =
       ((\<Sum>cell\<leftarrow>filter is_visible (standby_nodes s). fst (ee_request_vote env (node_id cell))),
        (\<exists>cell \<in> set (filter is_visible (standby_nodes s)).
           snd (ee_request_vote env (node_id cell)) > last_wal_receive_lsn local),
        cells', acts)"
    by auto
  moreover have "last_wal_receive_lsn local = ee_local_lsn env"
    by (simp add: local_def)
  ultimately show ?thesis
    by (auto simp: do_election_vote_def Let_def emit_def local_def)
qed

text \<open>
  Claim C3. A round reaches the vote-request phase when the local voting status is not
  \<open>VS_VOTE_REQUEST_RECEIVED\<close>, there is a sibling, and no sibling that can be reached
  refuses the announcement. Then, with the visible siblings being those whose
  announcement succeeded, \<open>votes_for_me\<close> is the sum of their votes plus one vote for
  the local node exactly when none of them reports a \<open>last_wal_receive_lsn\<close> above the
  local one, \<open>visible_nodes\<close> is their number plus one, and the result is
  \<open>ELECTION_WON\<close> when the two are equal and \<open>ELECTION_LOST\<close> otherwise. Both
  counters are C \<open>int\<close>s: the sums and the comparison are those of 32-bit words,
  whatever values \<open>request_vote\<close> returns.
\<close>

theorem do_election_tally:
  assumes "ee_voting_status env \<noteq> VS_VOTE_REQUEST_RECEIVED"
      and "ee_siblings env \<noteq> []"
      and "\<forall>cell \<in> set (ee_siblings env).
             ee_connect env (conninfo cell) = CONNECTION_OK \<longrightarrow> ee_announce env (node_id cell)"
  shows "let visible = filter (announced env) (ee_siblings env);
             other_node_is_ahead =
               (\<exists>cell \<in> set visible. snd (ee_request_vote env (node_id cell)) > ee_local_lsn env);
             votes_for_me =
               (\<Sum>cell\<leftarrow>visible. fst (ee_request_vote env (node_id cell)))
                 + (if other_node_is_ahead then 0 else 1 :: c_int);
             visible_nodes = (1 + of_nat (length visible) :: c_int)
         in fst (do_election env s) =
              (if votes_for_me = visible_nodes then ELECTION_WON else ELECTION_LOST)"
proof -
  from announce_loop_no_rival [OF assms(3), of "ee_electoral_term env" 1] obtain acts where
    A: "announce_loop env (ee_electoral_term env) (ee_siblings env) 1 =
         (False, 1 + of_nat (length (filter (announced env) (ee_siblings env))),
          map (mark env) (ee_siblings env), acts)"
    by blast
  have sum: "(\<lambda>cell. fst (ee_request_vote env (node_id cell))) \<circ> mark env
      = (\<lambda>cell. fst (ee_request_vote env (node_id cell)))"
    by (simp add: fun_eq_iff)
  from assms(1,2) A show ?thesis
    by (auto simp: do_election_def Let_def do_election_vote_result filter_visible_mark sum emit_def)
qed

theorem do_election_tally_witness:
  "ee_voting_status election_unanimous \<noteq> VS_VOTE_REQUEST_RECEIVED
   \<and> ee_siblings election_unanimous \<noteq> []
   \<and> fst (do_election election_unanimous standby2) = ELECTION_WON
   \<and> fst (do_election election_behind standby2) = ELECTION_LOST
   \<and> fst (do_election election_wrapping standby2) = ELECTION_WON"
proof -
  have a: "ee_voting_status election_unanimous \<noteq> VS_VOTE_REQUEST_RECEIVED"
    and b: "ee_siblings election_unanimous \<noteq> []"
    and c: "\<forall>cell \<in> set (ee_siblings election_unanimous).
             ee_connect election_unanimous (conninfo cell) = CONNECTION_OK
               \<longrightarrow> ee_announce election_unanimous (node_id cell)"
    and a': "ee_voting_status election_behind \<noteq> VS_VOTE_REQUEST_RECEIVED"
    and b': "ee_siblings election_behind \<noteq> []"
    and c': "\<forall>cell \<in> set (ee_siblings election_behind).
             ee_connect election_behind (conninfo cell) = CONNECTION_OK
               \<longrightarrow> ee_announce election_behind (node_id cell)"
    and a'': "ee_voting_status election_wrapping \<noteq> VS_VOTE_REQUEST_RECEIVED"
    and b'': "ee_siblings election_wrapping \<noteq> []"
    and c'': "\<forall>cell \<in> set (ee_siblings election_wrapping).
             ee_connect election_wrapping (conninfo cell) = CONNECTION_OK
               \<longrightarrow> ee_announce election_wrapping (node_id cell)"
    by (simp_all add: election_alone_def election_unanimous_def election_behind_def
        election_wrapping_def)
  from do_election_tally [OF a b c, of standby2] do_election_tally [OF a' b' c', of standby2]
    do_election_tally [OF a'' b'' c'', of standby2] a b
  show ?thesis
    by (simp add: election_alone_def election_unanimous_def election_behind_def
        election_wrapping_def announced_def cluster_defs node4_def node5_def Let_def)
qed

lemma announce_loop_never_resets:
  "ResetVotingStatus \<notin> set (snd (snd (snd (announce_loop env t cells v))))"
  by (induction cells arbitrary: v) (simp_all add: Let_def split_beta)

lemma request_vote_loop_never_resets:
  "ResetVotingStatus \<notin> set (snd (snd (snd (request_vote_loop env t local cells votes ahead))))"
  by (induction cells arbitrary: votes ahead) (simp_all add: Let_def split_beta)

text \<open>Whatever the answers, \<open>do_election\<close> makes no \<open>reset_voting_status\<close> call.\<close>

lemma do_election_never_resets:
  "ResetVotingStatus \<notin> set (emitted s (snd (do_election env s)))"
  by (simp add: do_election_def do_election_vote_def Let_def emitted_def emit_def split_beta
      announce_loop_never_resets request_vote_loop_never_resets)

text \<open>
  Claim C4. After \<open>set_voting_status_initiated\<close>, a sibling that has declared itself
  candidate makes \<open>do_election\<close> return \<open>ELECTION_NOT_CANDIDATE\<close>; the claim has it call
  \<open>reset_voting_status\<close> on the local connection first. Node 2, with node 3 a declared
  candidate, makes these six calls and no other.
\<close>

theorem do_election_rival_no_reset:
  "fst (do_election election_rival standby2) = ELECTION_NOT_CANDIDATE
   \<and> trace (snd (do_election election_rival standby2)) =
       [PgUsleep 430000, GetVotingStatus, SetVotingStatusInitiated,
        GetActiveSiblingNodeRecords 2 1, EstablishDbConnection ''host=node3'' False,
        AnnounceCandidature 3 1]
   \<and> ResetVotingStatus \<notin> set (trace (snd (do_election election_rival standby2)))"
  by (simp add: do_election_def election_alone_def election_rival_def cluster_defs Let_def
      emit_def election_rand_wait_def signed_modulo_int_def)

section \<open>The promotion\<close>

text \<open>
  The test of the reopened connection's status comes after a call that does not return
  with a failed connection, so \<open>promote_self\<close> never returns
  \<open>FAILOVER_STATE_LOCAL_NODE_FAILURE\<close>.
\<close>

lemma promote_self_no_local_node_failure:
  "promote_self env s \<noteq> Done (FAILOVER_STATE_LOCAL_NODE_FAILURE, s')"
  by (auto simp: promote_self_def promote_self_result_def Let_def)



section \<open>The reconnection\<close>

lemma try_reconnect_loop_props:
  "i \<le> max_attempts \<Longrightarrow>
   (case try_reconnect_loop env ci i of
     (c, st, acts) \<Rightarrow>
       length (filter is_probe acts) \<le> max_attempts - i \<and>
       spaced_probes True acts \<and>
       ((c = Some CONNECTION_OK \<and> st = NODE_STATUS_UP) \<or>
        (c = None \<and> st = NODE_STATUS_DOWN \<and> length (filter is_probe acts) = max_attempts - i)))"
proof (induction env ci i rule: try_reconnect_loop.induct)
  case (1 env ci i)
  show ?case
  proof (cases "i < max_attempts")
    case False
    then show ?thesis by (subst try_reconnect_loop.simps) simp
  next
    case True
    then have le: "i + 1 \<le> max_attempts" by simp
    show ?thesis
    proof (cases "re_available env i")
      case False
      with True 1(2)[OF True _ le] show ?thesis
        by (subst try_reconnect_loop.simps) (auto split: prod.splits)
    next
      case avail: True
      show ?thesis
      proof (cases "re_connect env i")
        case CONNECTION_OK
        with True avail show ?thesis
          by (subst try_reconnect_loop.simps) simp
      next
        case CONNECTION_BAD
        with True avail 1(1)[OF True _ _ _ le] show ?thesis
          by (subst try_reconnect_loop.simps) (auto split: prod.splits)
      qed
    qed
  qed
qed

lemma try_reconnect_node_down:
  "try_reconnect node_down ci =
     (None, NODE_STATUS_DOWN,
      [IsServerAvailable ci, Sleep 1, IsServerAvailable ci, Sleep 1, IsServerAvailable ci, Sleep 1,
       IsServerAvailable ci, Sleep 1, IsServerAvailable ci, Sleep 1])"
  by (simp add: try_reconnect_def try_reconnect_loop.simps max_attempts_def node_down_def)

lemma try_reconnect_node_back:
  "try_reconnect node_back ci =
     (Some CONNECTION_OK, NODE_STATUS_UP,
      [IsServerAvailable ci, Sleep 1, IsServerAvailable ci, Sleep 1,
       IsServerAvailable ci, EstablishDbConnection ci False, Sleep 1,
       IsServerAvailable ci, EstablishDbConnection ci False])"
  by (simp add: try_reconnect_def try_reconnect_loop.simps max_attempts_def node_back_def)

text \<open>
  Claim C6. Every call of \<open>try_reconnect\<close> returns; \<open>max_attempts\<close> is 5 and the call
  makes at most that many \<open>is_server_available\<close> probes, each but the first after a
  \<open>sleep(1)\<close> that follows the previous one. It returns either a handle with status
  \<open>CONNECTION_OK\<close> and the node status \<open>NODE_STATUS_UP\<close>, or the null handle and
  \<open>NODE_STATUS_DOWN\<close> after all five probes; there is no other outcome.
\<close>

theorem try_reconnect_bounded:
  "case try_reconnect env ci of
     (c, st, acts) \<Rightarrow>
       max_attempts = 5 \<and>
       length (filter is_probe acts) \<le> max_attempts \<and>
       spaced_probes True acts \<and>
       ((c = Some CONNECTION_OK \<and> PQstatus c = CONNECTION_OK \<and> st = NODE_STATUS_UP) \<or>
        (c = None \<and> st = NODE_STATUS_DOWN \<and> length (filter is_probe acts) = max_attempts))"
  using try_reconnect_loop_props [of 0 env ci]
  by (auto simp: try_reconnect_def max_attempts_def split: prod.splits)

theorem try_reconnect_bounded_witness:
  "fst (try_reconnect node_down ''host=node1'') = None
   \<and> fst (snd (try_reconnect node_down ''host=node1'')) = NODE_STATUS_DOWN
   \<and> length (filter is_probe (snd (snd (try_reconnect node_down ''host=node1'')))) = 5
   \<and> spaced_probes True (snd (snd (try_reconnect node_down ''host=node1'')))
   \<and> PQstatus (fst (try_reconnect node_back ''host=node1'')) = CONNECTION_OK
   \<and> fst (snd (try_reconnect node_back ''host=node1'')) = NODE_STATUS_UP
   \<and> length (filter is_probe (snd (snd (try_reconnect node_back ''host=node1'')))) = 4"
  using try_reconnect_bounded [of node_down "''host=node1''"]
    try_reconnect_bounded [of node_back "''host=node1''"]
  by (simp add: try_reconnect_node_down try_reconnect_node_back)

section \<open>The failover dispatch of the standby monitor\<close>

lemma standby_loop_tail_failover_state [simp]:
  "failover_state (standby_loop_tail env s) = failover_state s"
  by (simp add: standby_loop_tail_def Let_def emit_def)

lemma standby_tick_down:
  "standby_tick env NODE_STATUS_DOWN s =
     Done (BREAK, NODE_STATUS_DOWN,
           standby_loop_tail env (emit [IsServerAvailable (conninfo (upstream_node_info s))] s))"
  by (simp add: standby_tick_def Let_def)










text \<open>After the break no pass of the loop runs an election.\<close>

lemma standby_loop_down_no_election:
  "GetVotingStatus \<notin> set (emitted s (run_state (standby_loop envs NODE_STATUS_DOWN s)))"
proof -
  have "\<exists>acts. trace (run_state (standby_loop envs NODE_STATUS_DOWN s)) = trace s @ acts
           \<and> GetVotingStatus \<notin> set acts"
  proof (induction envs arbitrary: s)
    case Nil
    show ?case by simp
  next
    case (Cons env envs)
    let ?s = "standby_loop_tail env (emit [IsServerAvailable (conninfo (upstream_node_info s))] s)"
    from Cons [of ?s] obtain acts where
      "trace (run_state (standby_loop envs NODE_STATUS_DOWN ?s)) = trace ?s @ acts"
      and "GetVotingStatus \<notin> set acts"
      by blast
    moreover have "\<exists>acts'. trace ?s = trace s @ acts' \<and> GetVotingStatus \<notin> set acts'"
      by (simp add: standby_loop_tail_def Let_def)
    ultimately show ?case
      by (auto simp: standby_tick_down)
  qed
  then show ?thesis
    by (auto simp: emitted_def)
qed




text \<open>
  Claim C2. The dispatch is to hand control back to \<open>start_monitoring\<close> when it sees
  \<open>FAILOVER_STATE_PROMOTION_FAILED\<close>, \<open>FAILOVER_STATE_FOLLOW_FAIL\<close> or
  \<open>FAILOVER_STATE_NO_NEW_PRIMARY\<close>, so that a new election is run. Node 2 is started as
  a standby and loses node 1. When it wins the election and its promote command fails,
  the dispatch sees \<open>FAILOVER_STATE_PROMOTION_FAILED\<close>; when it is told to follow
  node 3, which cannot be reached, the dispatch sees \<open>FAILOVER_STATE_FOLLOW_FAIL\<close>. In
  both runs the monitor has not returned after three passes of its loop, and
  \<open>get_voting_status\<close>, the first query of every election, has been called once. When
  no notification arrives, the dispatch sees \<open>FAILOVER_STATE_NO_NEW_PRIMARY\<close> and the
  monitor returns in the first pass.
\<close>

theorem monitor_streaming_standby_stays_after_failure:
  "failover_state (at_dispatch pass_promotion_failed (standby_start standby_start_ok standby2))
     = FAILOVER_STATE_PROMOTION_FAILED
   \<and> \<not> has_returned
         (monitor_streaming_standby standby_start_ok
            [pass_promotion_failed, pass_promotion_failed, pass_promotion_failed] standby2)
   \<and> count_list
         (trace (run_state
            (monitor_streaming_standby standby_start_ok
               [pass_promotion_failed, pass_promotion_failed, pass_promotion_failed] standby2)))
         GetVotingStatus = 1
   \<and> failover_state (at_dispatch pass_follow_fail (standby_start standby_start_ok standby2))
     = FAILOVER_STATE_FOLLOW_FAIL
   \<and> \<not> has_returned
         (monitor_streaming_standby standby_start_ok
            [pass_follow_fail, pass_follow_fail, pass_follow_fail] standby2)
   \<and> count_list
         (trace (run_state
            (monitor_streaming_standby standby_start_ok
               [pass_follow_fail, pass_follow_fail, pass_follow_fail] standby2)))
         GetVotingStatus = 1
   \<and> failover_state (at_dispatch pass_no_new_primary (standby_start standby_start_ok standby2))
     = FAILOVER_STATE_NO_NEW_PRIMARY
   \<and> has_returned (monitor_streaming_standby standby_start_ok [pass_no_new_primary] standby2)"
proof -
  note promotion = run_defs try_reconnect_node_down pass_promotion_failed_def
    election_alone_def promote_fails_def standby_start_ok_def cluster_defs
  note follow = run_defs try_reconnect_node_down pass_follow_fail_def pass_no_new_primary_def
    pass_promotion_failed_def follow_unreachable_def election_alone_def standby_start_ok_def
    cluster_defs
  have 1: "failover_state
             (at_dispatch pass_promotion_failed (standby_start standby_start_ok standby2))
           = FAILOVER_STATE_PROMOTION_FAILED"
    by (simp add: promotion)
  have 2: "\<not> has_returned
         (monitor_streaming_standby standby_start_ok
            [pass_promotion_failed, pass_promotion_failed, pass_promotion_failed] standby2)"
    by (simp add: promotion)
  have 3: "count_list
         (trace (run_state
            (monitor_streaming_standby standby_start_ok
               [pass_promotion_failed, pass_promotion_failed, pass_promotion_failed] standby2)))
         GetVotingStatus = 1"
    by (simp add: promotion)
  have 4: "failover_state (at_dispatch pass_follow_fail (standby_start standby_start_ok standby2))
           = FAILOVER_STATE_FOLLOW_FAIL"
    by (simp add: follow)
  have 5: "\<not> has_returned
         (monitor_streaming_standby standby_start_ok
            [pass_follow_fail, pass_follow_fail, pass_follow_fail] standby2)"
    by (simp add: follow)
  have 6: "count_list
         (trace (run_state
            (monitor_streaming_standby standby_start_ok
               [pass_follow_fail, pass_follow_fail, pass_follow_fail] standby2)))
         GetVotingStatus = 1"
    by (simp add: follow)
  have 7: "failover_state
             (at_dispatch pass_no_new_primary (standby_start standby_start_ok standby2))
           = FAILOVER_STATE_NO_NEW_PRIMARY"
    by (simp add: follow)
  have 8: "has_returned
             (monitor_streaming_standby standby_start_ok [pass_no_new_primary] standby2)"
    by (simp add: follow)
  from 1 2 3 4 5 6 7 8 show ?thesis by blast
qed



section \<open>The trace only grows\<close>

lemma trace_split: "prefix (trace s) (trace s') \<Longrightarrow> trace s' = trace s @ emitted s s'"
  by (auto simp: emitted_def prefix_def)

lemma do_election_vote_grows: "prefix (trace s) (trace (snd (do_election_vote env t v s)))"
  by (simp add: do_election_vote_def Let_def split_beta)

lemmas do_election_vote_calls = trace_split [OF do_election_vote_grows]

lemma do_election_grows: "prefix (trace s) (trace (snd (do_election env s)))"
  by (simp add: do_election_def Let_def split_beta do_election_vote_calls)

lemmas do_election_calls = trace_split [OF do_election_grows]

lemma promote_self_grows:
  "prefix (trace s) (trace (final_state snd (promote_self env s)))"
  by (simp add: promote_self_def promote_self_result_def Let_def)

lemma promote_self_calls:
  "promote_self env s = Done (fs, s') \<Longrightarrow> trace s' = trace s @ emitted s s'"
  "promote_self env s = Exit s' \<Longrightarrow> trace s' = trace s @ emitted s s'"
  using promote_self_grows [of s env] by (auto intro: trace_split)

lemma follow_new_primary_grows: "prefix (trace s) (trace (snd (follow_new_primary env i s)))"
  by (simp add: follow_new_primary_def Let_def)

lemmas follow_new_primary_calls = trace_split [OF follow_new_primary_grows]

lemma election_outcome_grows:
  "prefix (trace s) (trace (final_state id (election_outcome env r s)))"
  by (auto simp: election_outcome_def Let_def split: outcome.splits dest!: promote_self_calls)

lemma election_outcome_calls:
  "election_outcome env r s = Done s' \<Longrightarrow> trace s' = trace s @ emitted s s'"
  "election_outcome env r s = Exit s' \<Longrightarrow> trace s' = trace s @ emitted s s'"
  using election_outcome_grows [of s env r] by (auto intro: trace_split)

lemma await_new_primary_grows:
  "prefix (trace s) (trace (final_state id (await_new_primary env s)))"
  by (auto simp: await_new_primary_def Let_def split_beta follow_new_primary_calls
      split: outcome.splits option.splits dest!: promote_self_calls)

lemma await_new_primary_calls:
  "await_new_primary env s = Done s' \<Longrightarrow> trace s' = trace s @ emitted s s'"
  "await_new_primary env s = Exit s' \<Longrightarrow> trace s' = trace s @ emitted s s'"
  using await_new_primary_grows [of s env] by (auto intro: trace_split)

lemma standby_failover_grows:
  "prefix (trace s) (trace (final_state id (standby_failover env s)))"
  by (auto simp: standby_failover_def Let_def split_beta do_election_calls
      trace_split [OF await_new_primary_grows]
      split: outcome.splits dest!: election_outcome_calls)

lemma standby_failover_calls:
  "standby_failover env s = Done s' \<Longrightarrow> trace s' = trace s @ emitted s s'"
  "standby_failover env s = Exit s' \<Longrightarrow> trace s' = trace s @ emitted s s'"
  using standby_failover_grows [of s env] by (auto intro: trace_split)

lemma failover_dispatch_grows: "prefix (trace s) (trace (snd (failover_dispatch connect s)))"
  by (simp add: failover_dispatch_def Let_def split_beta split: FailoverState.splits)

lemmas failover_dispatch_calls = trace_split [OF failover_dispatch_grows]

lemma standby_loop_tail_grows: "prefix (trace s) (trace (standby_loop_tail env s))"
  by (simp add: standby_loop_tail_def Let_def)

lemmas standby_loop_tail_calls = trace_split [OF standby_loop_tail_grows]

lemma standby_tick_grows:
  "prefix (trace s) (trace (final_state (snd \<circ> snd) (standby_tick env st s)))"
  by (auto simp: standby_tick_def Let_def split_beta failover_dispatch_calls
      standby_loop_tail_calls split: outcome.splits control.splits
      dest!: standby_failover_calls)

lemma standby_tick_calls:
  "standby_tick env st s = Done (c, st', s') \<Longrightarrow> prefix (trace s) (trace s')"
  "standby_tick env st s = Exit s' \<Longrightarrow> prefix (trace s) (trace s')"
  using standby_tick_grows [of s env st] by auto

lemma standby_loop_grows: "prefix (trace s) (trace (run_state (standby_loop envs st s)))"
proof (induction envs arbitrary: st s)
  case Nil
  show ?case by simp
next
  case (Cons env envs)
  show ?case
  proof (cases "standby_tick env st s")
    case (Exit s')
    with standby_tick_calls(2) [OF Exit] show ?thesis by simp
  next
    case (Done x)
    obtain c st' s' where x: "x = (c, st', s')"
      by (cases x)
    with Done have tick: "standby_tick env st s = Done (c, st', s')" by simp
    note step = standby_tick_calls(1) [OF tick]
    show ?thesis
    proof (cases c)
      case RETURN
      with tick step show ?thesis by simp
    next
      case BREAK
      from prefix_order.trans [OF step Cons.IH [of s' st']] BREAK tick show ?thesis by simp
    qed
  qed
qed

lemma standby_start_grows: "prefix (trace s) (trace (standby_start env s))"
  by (simp add: standby_start_def Let_def)

lemma monitor_streaming_standby_grows:
  "prefix (trace s) (trace (run_state (monitor_streaming_standby start envs s)))"
  unfolding monitor_streaming_standby_def
  by (rule prefix_order.trans [OF standby_start_grows standby_loop_grows])

lemma primary_tick_grows: "prefix (trace s) (trace (snd (primary_tick env st s)))"
  by (simp add: primary_tick_def Let_def split_beta)

lemma primary_loop_grows: "prefix (trace s) (trace (run_state (primary_loop envs st s)))"
proof (induction envs arbitrary: st s)
  case Nil
  show ?case by simp
next
  case (Cons env envs)
  obtain st' s' where tick: "primary_tick env st s = (st', s')"
    by (cases "primary_tick env st s")
  with primary_tick_grows [of s env st] have step: "prefix (trace s) (trace s')"
    by simp
  from prefix_order.trans [OF step Cons.IH [of s' st']] tick show ?case by simp
qed

lemma primary_start_grows: "prefix (trace s) (trace (primary_start s))"
  by (simp add: primary_start_def)

lemma monitor_streaming_primary_grows:
  "prefix (trace s) (trace (run_state (monitor_streaming_primary envs s)))"
  unfolding monitor_streaming_primary_def
  by (rule prefix_order.trans [OF primary_start_grows primary_loop_grows])

lemma reset_node_voting_status_grows: "prefix (trace s) (trace (reset_node_voting_status s))"
  by (simp add: reset_node_voting_status_def Let_def)

lemma reset_node_voting_status_type [simp]:
  "type (local_node_info (reset_node_voting_status s)) = type (local_node_info s)"
  by (simp add: reset_node_voting_status_def Let_def emit_def)

text \<open>One pass of the outer loop, as the \<open>switch\<close> on the node type runs it after the reset.\<close>

lemma start_monitoring_pass:
  "start_monitoring (env # envs) s =
     (case type (local_node_info s) of
        UNKNOWN \<Rightarrow> start_monitoring envs (reset_node_voting_status s)
      | PRIMARY \<Rightarrow>
          (case monitor_streaming_primary (me_primary_ticks env) (reset_node_voting_status s) of
             Returned s' \<Rightarrow> start_monitoring envs s'
           | Looping st s' \<Rightarrow> InMonitor st s'
           | Exited s' \<Rightarrow> Terminated s')
      | STANDBY \<Rightarrow>
          (case monitor_streaming_standby (me_standby_start env) (me_standby_ticks env)
                  (reset_node_voting_status s) of
             Returned s' \<Rightarrow> start_monitoring envs s'
           | Looping st s' \<Rightarrow> InMonitor st s'
           | Exited s' \<Rightarrow> Terminated s')
      | WITNESS \<Rightarrow> Stopped (reset_node_voting_status s)
      | BDR \<Rightarrow> Stopped (reset_node_voting_status s))"
  by (simp add: Let_def split: t_server_type.splits)

lemma start_monitoring_step:
  assumes IH: "\<And>s'. prefix (trace s') (trace (monitoring_state (start_monitoring envs s')))"
  shows "prefix (trace (reset_node_voting_status s))
           (trace (monitoring_state (start_monitoring (env # envs) s)))"
proof -
  let ?s = "reset_node_voting_status s"
  show ?thesis
  proof (cases "type (local_node_info s)")
    case UNKNOWN
    with IH [of ?s] show ?thesis
      by (simp add: start_monitoring_pass)
  next
    case PRIMARY
    let ?m = "monitor_streaming_primary (me_primary_ticks env) ?s"
    have m: "prefix (trace ?s) (trace (run_state ?m))"
      by (rule monitor_streaming_primary_grows)
    show ?thesis
    proof (cases ?m)
      case (Returned s')
      with m prefix_order.trans [OF _ IH [of s']] PRIMARY show ?thesis
        by (simp add: start_monitoring_pass)
    next
      case (Looping st s')
      with m PRIMARY show ?thesis by (simp add: start_monitoring_pass)
    next
      case (Exited s')
      with m PRIMARY show ?thesis by (simp add: start_monitoring_pass)
    qed
  next
    case STANDBY
    let ?m = "monitor_streaming_standby (me_standby_start env) (me_standby_ticks env) ?s"
    have m: "prefix (trace ?s) (trace (run_state ?m))"
      by (rule monitor_streaming_standby_grows)
    show ?thesis
    proof (cases ?m)
      case (Returned s')
      with m prefix_order.trans [OF _ IH [of s']] STANDBY show ?thesis
        by (simp add: start_monitoring_pass)
    next
      case (Looping st s')
      with m STANDBY show ?thesis by (simp add: start_monitoring_pass)
    next
      case (Exited s')
      with m STANDBY show ?thesis by (simp add: start_monitoring_pass)
    qed
  next
    case WITNESS
    then show ?thesis by (simp add: start_monitoring_pass)
  next
    case BDR
    then show ?thesis by (simp add: start_monitoring_pass)
  qed
qed

lemma start_monitoring_grows:
  "prefix (trace s) (trace (monitoring_state (start_monitoring envs s)))"
proof (induction envs arbitrary: s)
  case Nil
  show ?case by simp
next
  case (Cons env envs)
  from prefix_order.trans [OF reset_node_voting_status_grows start_monitoring_step [OF Cons.IH]]
  show ?case .
qed

lemma reset_node_voting_status_overwrites:
  "reset_node_voting_status (s\<lparr>failover_state := fs\<rparr>) = reset_node_voting_status s"
  by (simp add: reset_node_voting_status_def Let_def emit_def)

text \<open>A run of the outer loop is the run of its first pass, followed by the rest.\<close>

lemma start_monitoring_first_pass:
  "start_monitoring (env # envs) s =
     (case start_monitoring [env] s of
        AtLoopTop s' \<Rightarrow> start_monitoring envs s'
      | r \<Rightarrow> r)"
  by (simp add: Let_def split: t_server_type.splits run.splits)

lemma start_monitoring_from_pass_top:
  "pass_top k envs s = Some sk \<Longrightarrow> start_monitoring envs s = start_monitoring (drop k envs) sk"
proof (induction k envs s rule: pass_top.induct)
  case (1 envs s)
  then show ?case by simp
next
  case (2 k s)
  then show ?case by simp
next
  case (3 k env envs s)
  from "3.prems" obtain s' where one: "start_monitoring [env] s = AtLoopTop s'"
    and top: "pass_top k envs s' = Some sk"
    by (auto split: monitoring.splits)
  from one have "start_monitoring (env # envs) s = start_monitoring envs s'"
    by (subst start_monitoring_first_pass) simp
  with "3.IH" [OF one top] show ?case by simp
qed

section \<open>The outer loop\<close>

text \<open>
  Claim C10. Take any pass of the outer loop of \<open>start_monitoring\<close> that a run gets to.
  \<open>reset_node_voting_status\<close> sets \<open>failover_state\<close> to \<open>FAILOVER_STATE_NONE\<close> in
  every case; it calls \<open>reset_voting_status\<close> when the status of the local connection
  is \<open>CONNECTION_OK\<close> and makes no call at all when it is not. The run goes on as the
  \<open>switch\<close> on the node type does from the state that the reset leaves: the monitor of
  that type is entered in that state, and when it returns the next pass begins. The
  calls of the reset come before every later call of the run, and the run does not
  depend on the value \<open>failover_state\<close> had at the top of the pass.
\<close>

theorem start_monitoring_resets_first:
  assumes "pass_top k envs s = Some sk" and "k < length envs"
  shows "failover_state (reset_node_voting_status sk) = FAILOVER_STATE_NONE
       \<and> emitted sk (reset_node_voting_status sk) =
           (if PQstatus (local_conn sk) = CONNECTION_OK then [ResetVotingStatus] else [])
       \<and> reset_node_voting_status sk =
           (if PQstatus (local_conn sk) = CONNECTION_OK
            then emit [ResetVotingStatus] (sk\<lparr>failover_state := FAILOVER_STATE_NONE\<rparr>)
            else sk\<lparr>failover_state := FAILOVER_STATE_NONE\<rparr>)
       \<and> start_monitoring envs s =
           (case type (local_node_info sk) of
              UNKNOWN \<Rightarrow> start_monitoring (drop (Suc k) envs) (reset_node_voting_status sk)
            | PRIMARY \<Rightarrow>
                (case monitor_streaming_primary (me_primary_ticks (envs ! k))
                        (reset_node_voting_status sk) of
                   Returned s' \<Rightarrow> start_monitoring (drop (Suc k) envs) s'
                 | Looping st s' \<Rightarrow> InMonitor st s'
                 | Exited s' \<Rightarrow> Terminated s')
            | STANDBY \<Rightarrow>
                (case monitor_streaming_standby (me_standby_start (envs ! k))
                        (me_standby_ticks (envs ! k)) (reset_node_voting_status sk) of
                   Returned s' \<Rightarrow> start_monitoring (drop (Suc k) envs) s'
                 | Looping st s' \<Rightarrow> InMonitor st s'
                 | Exited s' \<Rightarrow> Terminated s')
            | WITNESS \<Rightarrow> Stopped (reset_node_voting_status sk)
            | BDR \<Rightarrow> Stopped (reset_node_voting_status sk))
       \<and> prefix (trace (reset_node_voting_status sk))
           (trace (monitoring_state (start_monitoring envs s)))
       \<and> start_monitoring (drop k envs) (sk\<lparr>failover_state := fs\<rparr>)
           = start_monitoring (drop k envs) sk"
proof -
  from assms(2) have d: "drop k envs = envs ! k # drop (Suc k) envs"
    by (simp add: Cons_nth_drop_Suc)
  note run = start_monitoring_from_pass_top [OF assms(1)]
  have 1: "failover_state (reset_node_voting_status sk) = FAILOVER_STATE_NONE"
    and 2: "emitted sk (reset_node_voting_status sk) =
           (if PQstatus (local_conn sk) = CONNECTION_OK then [ResetVotingStatus] else [])"
    and 3: "reset_node_voting_status sk =
           (if PQstatus (local_conn sk) = CONNECTION_OK
            then emit [ResetVotingStatus] (sk\<lparr>failover_state := FAILOVER_STATE_NONE\<rparr>)
            else sk\<lparr>failover_state := FAILOVER_STATE_NONE\<rparr>)"
    by (simp_all add: reset_node_voting_status_def Let_def emit_def emitted_def)
  have 4: "start_monitoring envs s =
           (case type (local_node_info sk) of
              UNKNOWN \<Rightarrow> start_monitoring (drop (Suc k) envs) (reset_node_voting_status sk)
            | PRIMARY \<Rightarrow>
                (case monitor_streaming_primary (me_primary_ticks (envs ! k))
                        (reset_node_voting_status sk) of
                   Returned s' \<Rightarrow> start_monitoring (drop (Suc k) envs) s'
                 | Looping st s' \<Rightarrow> InMonitor st s'
                 | Exited s' \<Rightarrow> Terminated s')
            | STANDBY \<Rightarrow>
                (case monitor_streaming_standby (me_standby_start (envs ! k))
                        (me_standby_ticks (envs ! k)) (reset_node_voting_status sk) of
                   Returned s' \<Rightarrow> start_monitoring (drop (Suc k) envs) s'
                 | Looping st s' \<Rightarrow> InMonitor st s'
                 | Exited s' \<Rightarrow> Terminated s')
            | WITNESS \<Rightarrow> Stopped (reset_node_voting_status sk)
            | BDR \<Rightarrow> Stopped (reset_node_voting_status sk))"
    unfolding run d by (rule start_monitoring_pass)
  have 5: "prefix (trace (reset_node_voting_status sk))
           (trace (monitoring_state (start_monitoring envs s)))"
    unfolding run d by (rule start_monitoring_step [OF start_monitoring_grows])
  have 6: "start_monitoring (drop k envs) (sk\<lparr>failover_state := fs\<rparr>)
           = start_monitoring (drop k envs) sk"
    unfolding d by (simp add: reset_node_voting_status_overwrites)
  from 1 2 3 4 5 6 show ?thesis by blast
qed

theorem start_monitoring_resets_first_witness:
  "pass_top (Suc 0) [outer_follow, outer_idle] standby2 \<noteq> None
   \<and> emitted (the (pass_top (Suc 0) [outer_follow, outer_idle] standby2))
       (reset_node_voting_status (the (pass_top (Suc 0) [outer_follow, outer_idle] standby2)))
     = [ResetVotingStatus]
   \<and> count_list
       (trace (monitoring_state (start_monitoring [outer_follow, outer_idle] standby2)))
       ResetVotingStatus = 2
   \<and> pass_top (Suc 0) [outer_followed, outer_idle] standby2 \<noteq> None
   \<and> emitted (the (pass_top (Suc 0) [outer_followed, outer_idle] standby2))
       (reset_node_voting_status (the (pass_top (Suc 0) [outer_followed, outer_idle] standby2)))
     = []
   \<and> count_list
       (trace (monitoring_state (start_monitoring [outer_followed, outer_idle] standby2)))
       ResetVotingStatus = 1
   \<and> prefix
       (trace (reset_node_voting_status
                 (the (pass_top (Suc 0) [outer_follow, outer_idle] standby2))))
       (trace (monitoring_state (start_monitoring [outer_follow, outer_idle] standby2)))"
proof -
  let ?A = "[outer_follow, outer_idle]" and ?B = "[outer_followed, outer_idle]"
  note defs = run_defs try_reconnect_node_down outer_follow_def outer_idle_def
    outer_followed_def pass_original_primary_def pass_followed_def follow_node3_def
    pass_no_new_primary_def pass_promotion_failed_def election_alone_def standby_start_ok_def
    cluster_defs
  have a: "pass_top (Suc 0) ?A standby2 \<noteq> None"
    and a_ok: "PQstatus (local_conn (the (pass_top (Suc 0) ?A standby2))) = CONNECTION_OK"
    and a_count: "count_list (trace (monitoring_state (start_monitoring ?A standby2)))
                    ResetVotingStatus = 2"
    by (simp_all add: defs)
  have b: "pass_top (Suc 0) ?B standby2 \<noteq> None"
    and b_bad: "PQstatus (local_conn (the (pass_top (Suc 0) ?B standby2))) \<noteq> CONNECTION_OK"
    and b_count: "count_list (trace (monitoring_state (start_monitoring ?B standby2)))
                    ResetVotingStatus = 1"
    by (simp_all add: defs)
  have len: "Suc 0 < length ?A" "Suc 0 < length ?B"
    by simp_all
  from a have ta: "pass_top (Suc 0) ?A standby2 = Some (the (pass_top (Suc 0) ?A standby2))"
    by simp
  from b have tb: "pass_top (Suc 0) ?B standby2 = Some (the (pass_top (Suc 0) ?B standby2))"
    by simp
  note A = start_monitoring_resets_first [OF ta len(1), where fs = FAILOVER_STATE_NONE]
  note B = start_monitoring_resets_first [OF tb len(2), where fs = FAILOVER_STATE_NONE]
  from A [THEN conjunct2, THEN conjunct1] a_ok
  have 1: "emitted (the (pass_top (Suc 0) ?A standby2))
             (reset_node_voting_status (the (pass_top (Suc 0) ?A standby2))) = [ResetVotingStatus]"
    by simp
  from B [THEN conjunct2, THEN conjunct1] b_bad
  have 2: "emitted (the (pass_top (Suc 0) ?B standby2))
             (reset_node_voting_status (the (pass_top (Suc 0) ?B standby2))) = []"
    by simp
  from A have 3: "prefix
       (trace (reset_node_voting_status (the (pass_top (Suc 0) ?A standby2))))
       (trace (monitoring_state (start_monitoring ?A standby2)))"
    by blast
  from a b 1 2 3 a_count b_count show ?thesis by blast
qed

end
